theory Spec2Isabelle
  imports Main "HOL-Library.Word"
begin

section \<open>Data model\<close>

text \<open>
  Modelled from the spec: \<^verbatim>\<open>resource.h\<close>, which declares \<^verbatim>\<open>ApiDataType\<close>,
  \<^verbatim>\<open>ResourceItemDescriptor\<close>, \<^verbatim>\<open>ResourceItem\<close> and \<^verbatim>\<open>Resource\<close>, is not among the
  sources. The data types an attribute can have are the ones the spec lists for
  \<^verbatim>\<open>dataType\<close>; \<^verbatim>\<open>resource.cpp\<close> uses all of them but \<^verbatim>\<open>DataTypeTimePattern\<close> in its table.
\<close>

datatype ApiDataType =
    DataTypeBool
  | DataTypeUInt8
  | DataTypeUInt16
  | DataTypeUInt32
  | DataTypeUInt64
  | DataTypeInt8
  | DataTypeInt16
  | DataTypeInt32
  | DataTypeString
  | DataTypeTime
  | DataTypeTimePattern

text \<open>
  A \<^verbatim>\<open>const char *\<close>: the address it holds and the characters found there. The source
  compares suffixes with \<^verbatim>\<open>==\<close> on the pointers (in \<^verbatim>\<open>Resource::item\<close>, \<^verbatim>\<open>addItem\<close>,
  \<^verbatim>\<open>removeItem\<close> and \<^verbatim>\<open>ResourceItem::toString\<close>), which is \<open>ptr a = ptr b\<close> here, and reads the
  characters only in \<^verbatim>\<open>getResourceItemDescriptor\<close>.
\<close>

datatype cstr = CStr (ptr: nat) (chars: string)

text \<open>
  Modelled from the spec: the descriptor of \<^verbatim>\<open>resource.h\<close> (missing) with its four
  members; \<open>validMin\<close> and \<open>validMax\<close> are the inclusive numeric bounds, both zero when the
  constructor is called without them.
\<close>

record ResourceItemDescriptor =
  type :: ApiDataType
  suffix :: cstr
  validMin :: "64 word"
  validMax :: "64 word"

text \<open>
  A \<^verbatim>\<open>QDateTime\<close> used as a time stamp: \<open>None\<close> is the invalid, default-constructed value,
  \<open>Some t\<close> the instant \<open>t\<close> in milliseconds since the epoch.
\<close>

type_synonym QDateTime = "int option"

text \<open>
  Modelled from the spec: the members of \<^verbatim>\<open>ResourceItem\<close> as \<^verbatim>\<open>resource.cpp\<close> uses them
  (the class declaration is in the missing \<^verbatim>\<open>resource.h\<close>). \<open>m_str\<close> is the owned
  \<^verbatim>\<open>QString *\<close>: \<open>None\<close> for the null pointer, \<open>Some s\<close> for a buffer holding \<open>s\<close>.
  \<open>m_num\<close> and \<open>m_numPrev\<close> are \<^verbatim>\<open>qint64\<close>, the rule handles \<^verbatim>\<open>int\<close>.
\<close>

record ResourceItem =
  m_isPublic :: bool
  m_num :: "64 word"
  m_numPrev :: "64 word"
  m_str :: "string option"
  m_rid :: ResourceItemDescriptor
  m_lastSet :: QDateTime
  m_lastChanged :: QDateTime
  m_rulesInvolved :: "32 word list"

text \<open>
  Modelled from the spec: \<^verbatim>\<open>Resource\<close> (declared in the missing \<^verbatim>\<open>resource.h\<close>) holds its
  prefix and the vector of its items. A \<^verbatim>\<open>ResourceItem *\<close> into the vector is the index of
  the element it points to.
\<close>

record Resource =
  m_prefix :: cstr
  m_rItems :: "ResourceItem list"

section \<open>The suffix constants\<close>

text \<open>
  Each \<^verbatim>\<open>const char *R... = "..."\<close> of \<^verbatim>\<open>resource.cpp\<close>. The address of a literal is
  abstract; the literals are distinct objects, numbered here by the line that declares them.
\<close>

definition RSensors :: cstr where
  "RSensors = CStr 16 ''/sensors''"

definition RLights :: cstr where
  "RLights = CStr 17 ''/lights''"

definition RGroups :: cstr where
  "RGroups = CStr 18 ''/groups''"

definition RConfig :: cstr where
  "RConfig = CStr 19 ''/config''"

definition REventAdded :: cstr where
  "REventAdded = CStr 21 ''event/added''"

definition REventDeleted :: cstr where
  "REventDeleted = CStr 22 ''event/deleted''"

definition REventValidGroup :: cstr where
  "REventValidGroup = CStr 23 ''event/validgroup''"

definition REventCheckGroupAnyOn :: cstr where
  "REventCheckGroupAnyOn = CStr 24 ''event/checkgroupanyon''"

definition RInvalidSuffix :: cstr where
  "RInvalidSuffix = CStr 26 ''invalid/suffix''"

definition RAttrName :: cstr where
  "RAttrName = CStr 28 ''attr/name''"

definition RAttrManufacturerName :: cstr where
  "RAttrManufacturerName = CStr 29 ''attr/manufacturername''"

definition RAttrModelId :: cstr where
  "RAttrModelId = CStr 30 ''attr/modelid''"

definition RAttrType :: cstr where
  "RAttrType = CStr 31 ''attr/type''"

definition RAttrClass :: cstr where
  "RAttrClass = CStr 32 ''attr/class''"

definition RAttrUniqueId :: cstr where
  "RAttrUniqueId = CStr 33 ''attr/uniqueid''"

definition RAttrSwVersion :: cstr where
  "RAttrSwVersion = CStr 34 ''attr/swversion''"

definition RActionScene :: cstr where
  "RActionScene = CStr 36 ''action/scene''"

definition RStateAlarm :: cstr where
  "RStateAlarm = CStr 38 ''state/alarm''"

definition RStateAlert :: cstr where
  "RStateAlert = CStr 39 ''state/alert''"

definition RStateAllOn :: cstr where
  "RStateAllOn = CStr 40 ''state/all_on''"

definition RStateAnyOn :: cstr where
  "RStateAnyOn = CStr 41 ''state/any_on''"

definition RStateBri :: cstr where
  "RStateBri = CStr 42 ''state/bri''"

definition RStateButtonEvent :: cstr where
  "RStateButtonEvent = CStr 43 ''state/buttonevent''"

definition RStateCarbonMonoxide :: cstr where
  "RStateCarbonMonoxide = CStr 44 ''state/carbonmonoxide''"

definition RStateColorMode :: cstr where
  "RStateColorMode = CStr 45 ''state/colormode''"

definition RStateConsumption :: cstr where
  "RStateConsumption = CStr 46 ''state/consumption''"

definition RStateCurrent :: cstr where
  "RStateCurrent = CStr 47 ''state/current''"

definition RStateCt :: cstr where
  "RStateCt = CStr 48 ''state/ct''"

definition RStateDark :: cstr where
  "RStateDark = CStr 49 ''state/dark''"

definition RStateDaylight :: cstr where
  "RStateDaylight = CStr 50 ''state/daylight''"

definition RStateEffect :: cstr where
  "RStateEffect = CStr 51 ''state/effect''"

definition RStateFire :: cstr where
  "RStateFire = CStr 52 ''state/fire''"

definition RStateFlag :: cstr where
  "RStateFlag = CStr 53 ''state/flag''"

definition RStateHue :: cstr where
  "RStateHue = CStr 54 ''state/hue''"

definition RStateHumidity :: cstr where
  "RStateHumidity = CStr 55 ''state/humidity''"

definition RStateLastUpdated :: cstr where
  "RStateLastUpdated = CStr 56 ''state/lastupdated''"

definition RStateLightLevel :: cstr where
  "RStateLightLevel = CStr 57 ''state/lightlevel''"

definition RStateLowBattery :: cstr where
  "RStateLowBattery = CStr 58 ''state/lowbattery''"

definition RStateLux :: cstr where
  "RStateLux = CStr 59 ''state/lux''"

definition RStateOn :: cstr where
  "RStateOn = CStr 60 ''state/on''"

definition RStateOpen :: cstr where
  "RStateOpen = CStr 61 ''state/open''"

definition RStateOrientationX :: cstr where
  "RStateOrientationX = CStr 62 ''state/orientation_x''"

definition RStateOrientationY :: cstr where
  "RStateOrientationY = CStr 63 ''state/orientation_y''"

definition RStateOrientationZ :: cstr where
  "RStateOrientationZ = CStr 64 ''state/orientation_z''"

definition RStatePresence :: cstr where
  "RStatePresence = CStr 65 ''state/presence''"

definition RStatePressure :: cstr where
  "RStatePressure = CStr 66 ''state/pressure''"

definition RStatePower :: cstr where
  "RStatePower = CStr 67 ''state/power''"

definition RStateReachable :: cstr where
  "RStateReachable = CStr 68 ''state/reachable''"

definition RStateSat :: cstr where
  "RStateSat = CStr 69 ''state/sat''"

definition RStateSpeed :: cstr where
  "RStateSpeed = CStr 70 ''state/speed''"

definition RStateStatus :: cstr where
  "RStateStatus = CStr 71 ''state/status''"

definition RStateTampered :: cstr where
  "RStateTampered = CStr 72 ''state/tampered''"

definition RStateTemperature :: cstr where
  "RStateTemperature = CStr 73 ''state/temperature''"

definition RStateTiltAngle :: cstr where
  "RStateTiltAngle = CStr 74 ''state/tiltangle''"

definition RStateValve :: cstr where
  "RStateValve = CStr 75 ''state/valve''"

definition RStateVibration :: cstr where
  "RStateVibration = CStr 76 ''state/vibration''"

definition RStateVibrationStrength :: cstr where
  "RStateVibrationStrength = CStr 77 ''state/vibrationstrength''"

definition RStateVoltage :: cstr where
  "RStateVoltage = CStr 78 ''state/voltage''"

definition RStateWater :: cstr where
  "RStateWater = CStr 79 ''state/water''"

definition RStateX :: cstr where
  "RStateX = CStr 80 ''state/x''"

definition RStateY :: cstr where
  "RStateY = CStr 81 ''state/y''"

definition RConfigAlert :: cstr where
  "RConfigAlert = CStr 83 ''config/alert''"

definition RConfigBattery :: cstr where
  "RConfigBattery = CStr 84 ''config/battery''"

definition RConfigColorCapabilities :: cstr where
  "RConfigColorCapabilities = CStr 85 ''config/colorcapabilities''"

definition RConfigCtMin :: cstr where
  "RConfigCtMin = CStr 86 ''config/ctmin''"

definition RConfigCtMax :: cstr where
  "RConfigCtMax = CStr 87 ''config/ctmax''"

definition RConfigConfigured :: cstr where
  "RConfigConfigured = CStr 88 ''config/configured''"

definition RConfigDelay :: cstr where
  "RConfigDelay = CStr 89 ''config/delay''"

definition RConfigDisplayFlipped :: cstr where
  "RConfigDisplayFlipped = CStr 90 ''config/displayflipped''"

definition RConfigDuration :: cstr where
  "RConfigDuration = CStr 91 ''config/duration''"

definition RConfigGroup :: cstr where
  "RConfigGroup = CStr 92 ''config/group''"

definition RConfigHeatSetpoint :: cstr where
  "RConfigHeatSetpoint = CStr 93 ''config/heatsetpoint''"

definition RConfigHostFlags :: cstr where
  "RConfigHostFlags = CStr 94 ''config/hostflags''"

definition RConfigId :: cstr where
  "RConfigId = CStr 95 ''config/id''"

definition RConfigLat :: cstr where
  "RConfigLat = CStr 96 ''config/lat''"

definition RConfigLedIndication :: cstr where
  "RConfigLedIndication = CStr 97 ''config/ledindication''"

definition RConfigLocalTime :: cstr where
  "RConfigLocalTime = CStr 98 ''config/localtime''"

definition RConfigLocked :: cstr where
  "RConfigLocked = CStr 99 ''config/locked''"

definition RConfigLong :: cstr where
  "RConfigLong = CStr 100 ''config/long''"

definition RConfigLevelMin :: cstr where
  "RConfigLevelMin = CStr 101 ''config/levelmin''"

definition RConfigMode :: cstr where
  "RConfigMode = CStr 102 ''config/mode''"

definition RConfigOffset :: cstr where
  "RConfigOffset = CStr 103 ''config/offset''"

definition RConfigOn :: cstr where
  "RConfigOn = CStr 104 ''config/on''"

definition RConfigPending :: cstr where
  "RConfigPending = CStr 105 ''config/pending''"

definition RConfigPowerup :: cstr where
  "RConfigPowerup = CStr 106 ''config/powerup''"

definition RConfigPowerOnCt :: cstr where
  "RConfigPowerOnCt = CStr 107 ''config/poweronct''"

definition RConfigPowerOnLevel :: cstr where
  "RConfigPowerOnLevel = CStr 108 ''config/poweronlevel''"

definition RConfigReachable :: cstr where
  "RConfigReachable = CStr 109 ''config/reachable''"

definition RConfigScheduler :: cstr where
  "RConfigScheduler = CStr 110 ''config/scheduler''"

definition RConfigSchedulerOn :: cstr where
  "RConfigSchedulerOn = CStr 111 ''config/scheduleron''"

definition RConfigSensitivity :: cstr where
  "RConfigSensitivity = CStr 112 ''config/sensitivity''"

definition RConfigSensitivityMax :: cstr where
  "RConfigSensitivityMax = CStr 113 ''config/sensitivitymax''"

definition RConfigSunriseOffset :: cstr where
  "RConfigSunriseOffset = CStr 114 ''config/sunriseoffset''"

definition RConfigSunsetOffset :: cstr where
  "RConfigSunsetOffset = CStr 115 ''config/sunsetoffset''"

definition RConfigTemperature :: cstr where
  "RConfigTemperature = CStr 116 ''config/temperature''"

definition RConfigTholdDark :: cstr where
  "RConfigTholdDark = CStr 117 ''config/tholddark''"

definition RConfigTholdOffset :: cstr where
  "RConfigTholdOffset = CStr 118 ''config/tholdoffset''"

definition RConfigUrl :: cstr where
  "RConfigUrl = CStr 119 ''config/url''"

definition RConfigUsertest :: cstr where
  "RConfigUsertest = CStr 120 ''config/usertest''"

definition RConfigWindowCoveringType :: cstr where
  "RConfigWindowCoveringType = CStr 121 ''config/windowcoveringtype''"

definition RConfigUbisysJ1Mode :: cstr where
  "RConfigUbisysJ1Mode = CStr 122 ''config/ubisys_j1_mode''"

definition RConfigUbisysJ1WindowCoveringType :: cstr where
  "RConfigUbisysJ1WindowCoveringType = CStr 123 ''config/ubisys_j1_windowcoveringtype''"

definition RConfigUbisysJ1ConfigurationAndStatus :: cstr where
  "RConfigUbisysJ1ConfigurationAndStatus = CStr 124 ''config/ubisys_j1_configurationandstatus''"

definition RConfigUbisysJ1InstalledOpenLimitLift :: cstr where
  "RConfigUbisysJ1InstalledOpenLimitLift = CStr 125 ''config/ubisys_j1_installedopenlimitlift''"

definition RConfigUbisysJ1InstalledClosedLimitLift :: cstr where
  "RConfigUbisysJ1InstalledClosedLimitLift = CStr 126 ''config/ubisys_j1_installedclosedlimitlift''"

definition RConfigUbisysJ1InstalledOpenLimitTilt :: cstr where
  "RConfigUbisysJ1InstalledOpenLimitTilt = CStr 127 ''config/ubisys_j1_installedopenlimittilt''"

definition RConfigUbisysJ1InstalledClosedLimitTilt :: cstr where
  "RConfigUbisysJ1InstalledClosedLimitTilt = CStr 128 ''config/ubisys_j1_installedclosedlimittilt''"

definition RConfigUbisysJ1TurnaroundGuardTime :: cstr where
  "RConfigUbisysJ1TurnaroundGuardTime = CStr 129 ''config/ubisys_j1_turnaroundguardtime''"

definition RConfigUbisysJ1LiftToTiltTransitionSteps :: cstr where
  "RConfigUbisysJ1LiftToTiltTransitionSteps = CStr 130 ''config/ubisys_j1_lifttotilttransitionsteps''"

definition RConfigUbisysJ1TotalSteps :: cstr where
  "RConfigUbisysJ1TotalSteps = CStr 131 ''config/ubisys_j1_totalsteps''"

definition RConfigUbisysJ1LiftToTiltTransitionSteps2 :: cstr where
  "RConfigUbisysJ1LiftToTiltTransitionSteps2 = CStr 132 ''config/ubisys_j1_lifttotilttransitionsteps2''"

definition RConfigUbisysJ1TotalSteps2 :: cstr where
  "RConfigUbisysJ1TotalSteps2 = CStr 133 ''config/ubisys_j1_totalsteps2''"

definition RConfigUbisysJ1AdditionalSteps :: cstr where
  "RConfigUbisysJ1AdditionalSteps = CStr 134 ''config/ubisys_j1_additionalsteps''"

definition RConfigUbisysJ1InactivePowerThreshold :: cstr where
  "RConfigUbisysJ1InactivePowerThreshold = CStr 135 ''config/ubisys_j1_inactivepowerthreshold''"

definition RConfigUbisysJ1StartupSteps :: cstr where
  "RConfigUbisysJ1StartupSteps = CStr 136 ''config/ubisys_j1_startupsteps''"

section \<open>The descriptor table\<close>

text \<open>
  \<^verbatim>\<open>initResourceDescriptors\<close> clears the global tables and fills them: \<^verbatim>\<open>rItemStrings\<close> with
  the one invalid (empty) string at index 0, \<^verbatim>\<open>rItemDescriptors\<close> with the descriptors below,
  in this order. The functions that read \<^verbatim>\<open>rItemDescriptors\<close> take the table as a parameter.
\<close>

definition rItemStrings_0 :: string where
  "rItemStrings_0 = []"

definition ResourceItemDescriptor_ctor ::
    "ApiDataType \<Rightarrow> cstr \<Rightarrow> 64 word \<Rightarrow> 64 word \<Rightarrow> ResourceItemDescriptor" where
  "ResourceItemDescriptor_ctor t s vmin vmax =
     \<lparr>type = t, suffix = s, validMin = vmin, validMax = vmax\<rparr>"

definition initResourceDescriptors :: "ResourceItemDescriptor list" where
  "initResourceDescriptors =
   [
    ResourceItemDescriptor_ctor DataTypeString RAttrName 0 0,
    ResourceItemDescriptor_ctor DataTypeString RAttrManufacturerName 0 0,
    ResourceItemDescriptor_ctor DataTypeString RAttrModelId 0 0,
    ResourceItemDescriptor_ctor DataTypeString RAttrType 0 0,
    ResourceItemDescriptor_ctor DataTypeString RAttrClass 0 0,
    ResourceItemDescriptor_ctor DataTypeString RAttrUniqueId 0 0,
    ResourceItemDescriptor_ctor DataTypeString RAttrSwVersion 0 0,
    ResourceItemDescriptor_ctor DataTypeBool RStateAlarm 0 0,
    ResourceItemDescriptor_ctor DataTypeString RStateAlert 0 0,
    ResourceItemDescriptor_ctor DataTypeBool RStateAllOn 0 0,
    ResourceItemDescriptor_ctor DataTypeBool RStateAnyOn 0 0,
    ResourceItemDescriptor_ctor DataTypeUInt8 RStateBri 0 0,
    ResourceItemDescriptor_ctor DataTypeInt32 RStateButtonEvent 0 0,
    ResourceItemDescriptor_ctor DataTypeBool RStateCarbonMonoxide 0 0,
    ResourceItemDescriptor_ctor DataTypeString RStateColorMode 0 0,
    ResourceItemDescriptor_ctor DataTypeUInt64 RStateConsumption 0 0,
    ResourceItemDescriptor_ctor DataTypeUInt16 RStateCurrent 0 0,
    ResourceItemDescriptor_ctor DataTypeUInt16 RStateCt 0 0,
    ResourceItemDescriptor_ctor DataTypeBool RStateDark 0 0,
    ResourceItemDescriptor_ctor DataTypeBool RStateDaylight 0 0,
    ResourceItemDescriptor_ctor DataTypeString RStateEffect 0 0,
    ResourceItemDescriptor_ctor DataTypeBool RStateFire 0 0,
    ResourceItemDescriptor_ctor DataTypeBool RStateFlag 0 0,
    ResourceItemDescriptor_ctor DataTypeUInt16 RStateHue 0 0,
    ResourceItemDescriptor_ctor DataTypeUInt16 RStateHumidity 0 10000,
    ResourceItemDescriptor_ctor DataTypeTime RStateLastUpdated 0 0,
    ResourceItemDescriptor_ctor DataTypeUInt16 RStateLightLevel 0 65534,
    ResourceItemDescriptor_ctor DataTypeBool RStateLowBattery 0 0,
    ResourceItemDescriptor_ctor DataTypeUInt32 RStateLux 0 0,
    ResourceItemDescriptor_ctor DataTypeBool RStateOn 0 0,
    ResourceItemDescriptor_ctor DataTypeBool RStateOpen 0 0,
    ResourceItemDescriptor_ctor DataTypeInt16 RStateOrientationX 0 0,
    ResourceItemDescriptor_ctor DataTypeInt16 RStateOrientationY 0 0,
    ResourceItemDescriptor_ctor DataTypeInt16 RStateOrientationZ 0 0,
    ResourceItemDescriptor_ctor DataTypeBool RStatePresence 0 0,
    ResourceItemDescriptor_ctor DataTypeInt16 RStatePressure 0 32767,
    ResourceItemDescriptor_ctor DataTypeInt16 RStatePower 0 0,
    ResourceItemDescriptor_ctor DataTypeBool RStateReachable 0 0,
    ResourceItemDescriptor_ctor DataTypeUInt8 RStateSat 0 0,
    ResourceItemDescriptor_ctor DataTypeString RActionScene 0 0,
    ResourceItemDescriptor_ctor DataTypeUInt8 RStateSpeed 0 6,
    ResourceItemDescriptor_ctor DataTypeInt32 RStateStatus 0 0,
    ResourceItemDescriptor_ctor DataTypeBool RStateTampered 0 0,
    ResourceItemDescriptor_ctor DataTypeInt16 RStateTemperature (- 27315) 32767,
    ResourceItemDescriptor_ctor DataTypeUInt16 RStateTiltAngle 0 0,
    ResourceItemDescriptor_ctor DataTypeUInt8 RStateValve 0 0,
    ResourceItemDescriptor_ctor DataTypeBool RStateVibration 0 0,
    ResourceItemDescriptor_ctor DataTypeUInt16 RStateVibrationStrength 0 0,
    ResourceItemDescriptor_ctor DataTypeUInt16 RStateVoltage 0 0,
    ResourceItemDescriptor_ctor DataTypeBool RStateWater 0 0,
    ResourceItemDescriptor_ctor DataTypeUInt16 RStateX 0 0,
    ResourceItemDescriptor_ctor DataTypeUInt16 RStateY 0 0,
    ResourceItemDescriptor_ctor DataTypeString RConfigAlert 0 0,
    ResourceItemDescriptor_ctor DataTypeUInt8 RConfigBattery 0 100,
    ResourceItemDescriptor_ctor DataTypeUInt16 RConfigColorCapabilities 0 0,
    ResourceItemDescriptor_ctor DataTypeUInt16 RConfigCtMin 0 0,
    ResourceItemDescriptor_ctor DataTypeUInt16 RConfigCtMax 0 0,
    ResourceItemDescriptor_ctor DataTypeBool RConfigConfigured 0 0,
    ResourceItemDescriptor_ctor DataTypeUInt16 RConfigDelay 0 0,
    ResourceItemDescriptor_ctor DataTypeBool RConfigDisplayFlipped 0 0,
    ResourceItemDescriptor_ctor DataTypeUInt16 RConfigDuration 0 0,
    ResourceItemDescriptor_ctor DataTypeString RConfigGroup 0 0,
    ResourceItemDescriptor_ctor DataTypeInt16 RConfigHeatSetpoint 500 3000,
    ResourceItemDescriptor_ctor DataTypeUInt32 RConfigHostFlags 0 0,
    ResourceItemDescriptor_ctor DataTypeUInt32 RConfigId 0 0,
    ResourceItemDescriptor_ctor DataTypeString RConfigLat 0 0,
    ResourceItemDescriptor_ctor DataTypeBool RConfigLedIndication 0 0,
    ResourceItemDescriptor_ctor DataTypeTime RConfigLocalTime 0 0,
    ResourceItemDescriptor_ctor DataTypeBool RConfigLocked 0 0,
    ResourceItemDescriptor_ctor DataTypeString RConfigLong 0 0,
    ResourceItemDescriptor_ctor DataTypeUInt8 RConfigLevelMin 0 0,
    ResourceItemDescriptor_ctor DataTypeString RConfigMode 0 0,
    ResourceItemDescriptor_ctor DataTypeInt16 RConfigOffset (- 500) 500,
    ResourceItemDescriptor_ctor DataTypeBool RConfigOn 0 0,
    ResourceItemDescriptor_ctor DataTypeUInt8 RConfigPending 0 0,
    ResourceItemDescriptor_ctor DataTypeUInt32 RConfigPowerup 0 0,
    ResourceItemDescriptor_ctor DataTypeUInt8 RConfigPowerOnLevel 0 0,
    ResourceItemDescriptor_ctor DataTypeUInt16 RConfigPowerOnCt 0 0,
    ResourceItemDescriptor_ctor DataTypeBool RConfigReachable 0 0,
    ResourceItemDescriptor_ctor DataTypeString RConfigScheduler 0 0,
    ResourceItemDescriptor_ctor DataTypeBool RConfigSchedulerOn 0 0,
    ResourceItemDescriptor_ctor DataTypeUInt8 RConfigSensitivity 0 0,
    ResourceItemDescriptor_ctor DataTypeUInt8 RConfigSensitivityMax 0 0,
    ResourceItemDescriptor_ctor DataTypeInt8 RConfigSunriseOffset (- 120) 120,
    ResourceItemDescriptor_ctor DataTypeInt8 RConfigSunsetOffset (- 120) 120,
    ResourceItemDescriptor_ctor DataTypeInt16 RConfigTemperature (- 27315) 32767,
    ResourceItemDescriptor_ctor DataTypeUInt16 RConfigTholdDark 0 65534,
    ResourceItemDescriptor_ctor DataTypeUInt16 RConfigTholdOffset 1 65534,
    ResourceItemDescriptor_ctor DataTypeString RConfigUrl 0 0,
    ResourceItemDescriptor_ctor DataTypeBool RConfigUsertest 0 0,
    ResourceItemDescriptor_ctor DataTypeUInt8 RConfigWindowCoveringType 0 0,
    ResourceItemDescriptor_ctor DataTypeUInt8 RConfigUbisysJ1Mode 0 0,
    ResourceItemDescriptor_ctor DataTypeUInt8 RConfigUbisysJ1WindowCoveringType 0 0,
    ResourceItemDescriptor_ctor DataTypeUInt8 RConfigUbisysJ1ConfigurationAndStatus 0 0,
    ResourceItemDescriptor_ctor DataTypeUInt16 RConfigUbisysJ1InstalledOpenLimitLift 0 0,
    ResourceItemDescriptor_ctor DataTypeUInt16 RConfigUbisysJ1InstalledClosedLimitLift 0 0,
    ResourceItemDescriptor_ctor DataTypeUInt16 RConfigUbisysJ1InstalledOpenLimitTilt 0 0,
    ResourceItemDescriptor_ctor DataTypeUInt16 RConfigUbisysJ1InstalledClosedLimitTilt 0 0,
    ResourceItemDescriptor_ctor DataTypeUInt8 RConfigUbisysJ1TurnaroundGuardTime 0 0,
    ResourceItemDescriptor_ctor DataTypeUInt16 RConfigUbisysJ1LiftToTiltTransitionSteps 0 0,
    ResourceItemDescriptor_ctor DataTypeUInt16 RConfigUbisysJ1TotalSteps 0 0,
    ResourceItemDescriptor_ctor DataTypeUInt16 RConfigUbisysJ1LiftToTiltTransitionSteps2 0 0,
    ResourceItemDescriptor_ctor DataTypeUInt16 RConfigUbisysJ1TotalSteps2 0 0,
    ResourceItemDescriptor_ctor DataTypeUInt8 RConfigUbisysJ1AdditionalSteps 0 0,
    ResourceItemDescriptor_ctor DataTypeUInt16 RConfigUbisysJ1InactivePowerThreshold 0 0,
    ResourceItemDescriptor_ctor DataTypeUInt16 RConfigUbisysJ1StartupSteps 0 0
   ]"

section \<open>Qt date and time\<close>

text \<open>
  \<^verbatim>\<open>QDateTime\<close> belongs to the Qt library, not to the repository. What the source uses of it is
  modelled after its documentation: the proleptic Gregorian calendar, the format
  \<^verbatim>\<open>"yyyy-MM-ddTHH:mm:ss"\<close> (in which \<^verbatim>\<open>T\<close> is a literal character), and a date-time that is
  either at a given offset from UTC or in local time. Local time is taken to be at a fixed
  offset from UTC, \<open>localOffset\<close> seconds east of Greenwich, a parameter of every function
  that depends on it.
\<close>

definition days_from_civil :: "int \<Rightarrow> int \<Rightarrow> int \<Rightarrow> int" where
  "days_from_civil y m d =
     (let y' = (if m \<le> 2 then y - 1 else y);
          era = y' div 400;
          yoe = y' - era * 400;
          doy = (153 * (if m > 2 then m - 3 else m + 9) + 2) div 5 + d - 1;
          doe = yoe * 365 + yoe div 4 - yoe div 100 + doy
      in era * 146097 + doe - 719468)"

definition civil_from_days :: "int \<Rightarrow> int \<times> int \<times> int" where
  "civil_from_days z =
     (let z' = z + 719468;
          era = z' div 146097;
          doe = z' - era * 146097;
          yoe = (doe - doe div 1460 + doe div 36524 - doe div 146096) div 365;
          doy = doe - (365 * yoe + yoe div 4 - yoe div 100);
          mp = (5 * doy + 2) div 153;
          d = doy - (153 * mp + 2) div 5 + 1;
          m = (if mp < 10 then mp + 3 else mp - 9);
          y = yoe + era * 400
      in (if m \<le> 2 then y + 1 else y, m, d))"

definition days_in_month :: "int \<Rightarrow> int \<Rightarrow> int" where
  "days_in_month y m =
     (if m = 2 then (if y mod 4 = 0 \<and> (y mod 100 \<noteq> 0 \<or> y mod 400 = 0) then 29 else 28)
      else if m = 4 \<or> m = 6 \<or> m = 9 \<or> m = 11 then 30 else 31)"

definition digit_char :: "int \<Rightarrow> char" where
  "digit_char n = ''0123456789'' ! nat (n mod 10)"

definition pad2 :: "int \<Rightarrow> string" where
  "pad2 n = [digit_char (n div 10), digit_char n]"

definition pad4 :: "int \<Rightarrow> string" where
  "pad4 n = [digit_char (n div 1000), digit_char (n div 100), digit_char (n div 10), digit_char n]"

definition digit_val :: "char \<Rightarrow> int option" where
  "digit_val c = map_of (zip ''0123456789'' [0, 1, 2, 3, 4, 5, 6, 7, 8, 9]) c"

fun number_of :: "int \<Rightarrow> string \<Rightarrow> int option" where
  "number_of acc [] = Some acc"
| "number_of acc (c # cs) =
     (case digit_val c of None \<Rightarrow> None | Some v \<Rightarrow> number_of (acc * 10 + v) cs)"

text \<open>
  The text of a date-time in the format \<^verbatim>\<open>"yyyy-MM-ddTHH:mm:ss"\<close>, for the instant \<open>secs\<close>
  seconds after 1970-01-01T00:00:00 on the clock that is shown. The year is written with
  four digits, which is what Qt does for the years 0 to 9999.
\<close>

definition QDateTime_format :: "int \<Rightarrow> string" where
  "QDateTime_format secs =
     (let days = secs div 86400;
          sod = secs mod 86400;
          (y, m, d) = civil_from_days days
      in pad4 y @ ''-'' @ pad2 m @ ''-'' @ pad2 d @ ''T'' @
         pad2 (sod div 3600) @ '':'' @ pad2 (sod mod 3600 div 60) @ '':'' @ pad2 (sod mod 60))"

text \<open>
  \<^verbatim>\<open>dt.toString("yyyy-MM-ddTHH:mm:ss")\<close> for the date-time \<open>dt\<close> that is \<open>msecs\<close> milliseconds
  after the epoch and shown at \<open>offset\<close> seconds from UTC.
\<close>

definition QDateTime_toString :: "int \<Rightarrow> int \<Rightarrow> string" where
  "QDateTime_toString offset msecs = QDateTime_format (msecs div 1000 + offset)"

text \<open>
  Reading a text in the format \<^verbatim>\<open>"yyyy-MM-ddTHH:mm:ss"\<close>: \<open>None\<close> when it does not parse to
  a valid date and time, otherwise the seconds between 1970-01-01T00:00:00 and the date and
  time read, on one clock.
\<close>

definition QDateTime_parse :: "string \<Rightarrow> int option" where
  "QDateTime_parse s =
     (if length s = 19 \<and> s ! 4 = CHR ''-'' \<and> s ! 7 = CHR ''-'' \<and> s ! 10 = CHR ''T'' \<and>
         s ! 13 = CHR '':'' \<and> s ! 16 = CHR '':''
      then
        Option.bind (number_of 0 (take 4 s)) (\<lambda>y.
        Option.bind (number_of 0 (take 2 (drop 5 s))) (\<lambda>m.
        Option.bind (number_of 0 (take 2 (drop 8 s))) (\<lambda>d.
        Option.bind (number_of 0 (take 2 (drop 11 s))) (\<lambda>hh.
        Option.bind (number_of 0 (take 2 (drop 14 s))) (\<lambda>mm.
        Option.bind (number_of 0 (take 2 (drop 17 s))) (\<lambda>ss.
          if 1 \<le> m \<and> m \<le> 12 \<and> 1 \<le> d \<and> d \<le> days_in_month y m \<and>
             hh \<le> 23 \<and> mm \<le> 59 \<and> ss \<le> 59
          then Some (((days_from_civil y m d * 24 + hh) * 60 + mm) * 60 + ss)
          else None))))))
      else None)"

text \<open>
  \<^verbatim>\<open>QDateTime::fromString(s, "yyyy-MM-ddTHH:mm:ss")\<close> followed by \<^verbatim>\<open>isValid()\<close> and
  \<^verbatim>\<open>toMSecsSinceEpoch()\<close>: \<open>None\<close> when the date-time is not valid, otherwise the
  milliseconds since the epoch. Qt reads the fields as local time.
\<close>

definition QDateTime_fromString :: "int \<Rightarrow> string \<Rightarrow> int option" where
  "QDateTime_fromString localOffset s =
     map_option (\<lambda>secs. (secs - localOffset) * 1000) (QDateTime_parse s)"

section \<open>Qt variants\<close>

text \<open>
  \<^verbatim>\<open>QVariant\<close> is Qt's as well. \<^verbatim>\<open>ResourceItem::setValue(const QVariant &)\<close> reads its argument
  only through \<^verbatim>\<open>isValid()\<close>, \<^verbatim>\<open>type()\<close>, \<^verbatim>\<open>toString()\<close>, \<^verbatim>\<open>toBool()\<close>, \<^verbatim>\<open>toInt(&ok)\<close> and
  \<^verbatim>\<open>toDateTime().toMSecsSinceEpoch()\<close>, so an argument is the record of what these calls
  return: \<open>qv_toInt\<close> is \<open>None\<close> when \<^verbatim>\<open>ok\<close> comes back false, and \<open>qv_type\<close> keeps apart the
  two types the source asks for.
\<close>

datatype QVariant_Type = QVariant_String | QVariant_DateTime | QVariant_OtherType

record QVariant =
  qv_isValid :: bool
  qv_type :: QVariant_Type
  qv_toString :: string
  qv_toBool :: bool
  qv_toInt :: "32 word option"
  qv_toDateTime_toMSecsSinceEpoch :: "64 word"

text \<open>
  The variants \<^verbatim>\<open>ResourceItem::toVariant\<close> builds: \<^verbatim>\<open>QVariant()\<close>, or one holding a string, a
  \<^verbatim>\<open>bool\<close> or a \<^verbatim>\<open>double\<close>. The \<^verbatim>\<open>double\<close> is \<^verbatim>\<open>(double)m_num\<close>; the model keeps the
  \<^verbatim>\<open>qint64\<close> that is converted and does not compute the floating-point value.
\<close>

datatype QVariant_Value =
    QVariant_Invalid
  | QVariant_QString string
  | QVariant_bool bool
  | QVariant_double "64 word"

section \<open>ResourceItem\<close>

text \<open>
  \<^verbatim>\<open>ResourceItem::ResourceItem(const ResourceItemDescriptor &rid)\<close>. The string buffer is
  allocated for the three string-like types only. \<open>isPublic0\<close> is the value the missing
  \<^verbatim>\<open>resource.h\<close> gives \<open>m_isPublic\<close>, which this constructor does not set.
\<close>

definition ResourceItem_ctor :: "bool \<Rightarrow> ResourceItemDescriptor \<Rightarrow> ResourceItem" where
  "ResourceItem_ctor isPublic0 rid =
     \<lparr>m_isPublic = isPublic0,
      m_num = 0,
      m_numPrev = 0,
      m_str = (if type rid = DataTypeString \<or> type rid = DataTypeTime \<or>
                  type rid = DataTypeTimePattern then Some [] else None),
      m_rid = rid,
      m_lastSet = None,
      m_lastChanged = None,
      m_rulesInvolved = []\<rparr>"

text \<open>
  \<^verbatim>\<open>ResourceItem::toString\<close> is \<^verbatim>\<open>const\<close> but writes through \<open>m_str\<close> for a time item, so it
  returns the string together with the item as it is afterwards. \<^verbatim>\<open>rItemStrings[0]\<close> is the
  invalid string of the initialised table.
\<close>

definition toString :: "int \<Rightarrow> ResourceItem \<Rightarrow> string \<times> ResourceItem" where
  "toString localOffset it =
     (if type (m_rid it) = DataTypeString \<or> type (m_rid it) = DataTypeTimePattern then
        (case m_str it of
           Some s \<Rightarrow> (s, it)
         | None \<Rightarrow> (rItemStrings_0, it))
      else if type (m_rid it) = DataTypeTime then
        (case m_str it of
           Some s \<Rightarrow>
             (let s' = (if ptr (suffix (m_rid it)) = ptr RStateLastUpdated
                        then QDateTime_toString 0 (sint (m_num it))
                        else QDateTime_toString localOffset (sint (m_num it)))
              in (s', it\<lparr>m_str := Some s'\<rparr>))
         | None \<Rightarrow> (rItemStrings_0, it))
      else (rItemStrings_0, it))"

definition toNumber :: "ResourceItem \<Rightarrow> 64 word" where
  "toNumber it = m_num it"

definition toNumberPrevious :: "ResourceItem \<Rightarrow> 64 word" where
  "toNumberPrevious it = m_numPrev it"

definition toBool :: "ResourceItem \<Rightarrow> bool" where
  "toBool it = (m_num it \<noteq> 0)"

text \<open>
  \<^verbatim>\<open>setValue(qint64)\<close> and the numeric branches of \<^verbatim>\<open>setValue(const QVariant &)\<close> all end
  with the same statements, for the number \<open>x\<close> to store:
  \<^verbatim>\<open>m_lastSet = now; m_numPrev = m_num; if (m_num != x) { m_num = x; m_lastChanged = m_lastSet; }\<close>.
  \<open>now\<close> is what \<^verbatim>\<open>QDateTime::currentDateTime()\<close> returns during the call.
\<close>

definition storeNumber :: "int \<Rightarrow> 64 word \<Rightarrow> ResourceItem \<Rightarrow> ResourceItem" where
  "storeNumber now x it =
     (let it1 = it\<lparr>m_lastSet := Some now, m_numPrev := m_num it\<rparr>
      in if m_num it1 \<noteq> x then it1\<lparr>m_num := x, m_lastChanged := m_lastSet it1\<rparr> else it1)"

text \<open>
  The three \<^verbatim>\<open>setValue\<close> overloads, named after the type of their argument. Each returns the
  \<^verbatim>\<open>bool\<close> of the source and the item as it is afterwards.
\<close>

definition setValue_QString :: "int \<Rightarrow> string \<Rightarrow> ResourceItem \<Rightarrow> bool \<times> ResourceItem" where
  "setValue_QString now val it =
     (case m_str it of
        Some s \<Rightarrow>
          (let it1 = it\<lparr>m_lastSet := Some now\<rparr>
           in (True, if s \<noteq> val then it1\<lparr>m_str := Some val, m_lastChanged := m_lastSet it1\<rparr>
                     else it1))
      | None \<Rightarrow> (False, it))"

definition setValue_qint64 :: "int \<Rightarrow> 64 word \<Rightarrow> ResourceItem \<Rightarrow> bool \<times> ResourceItem" where
  "setValue_qint64 now val it =
     (if (validMin (m_rid it) \<noteq> 0 \<or> validMax (m_rid it) \<noteq> 0) \<and>
         (val <s validMin (m_rid it) \<or> validMax (m_rid it) <s val)
      then (False, it)
      else (True, storeNumber now val it))"

definition setValue_QVariant ::
    "int \<Rightarrow> int \<Rightarrow> QVariant \<Rightarrow> ResourceItem \<Rightarrow> bool \<times> ResourceItem" where
  "setValue_QVariant localOffset now val it =
     (if \<not> qv_isValid val then
        (True, it\<lparr>m_lastSet := None, m_lastChanged := None\<rparr>)
      else if type (m_rid it) = DataTypeString \<or> type (m_rid it) = DataTypeTimePattern then
        (case m_str it of
           Some s \<Rightarrow>
             (let it1 = it\<lparr>m_lastSet := Some now\<rparr>
              in (True, if s \<noteq> qv_toString val
                        then it1\<lparr>m_str := Some (qv_toString val), m_lastChanged := m_lastSet it1\<rparr>
                        else it1))
         | None \<Rightarrow> (False, it))
      else if type (m_rid it) = DataTypeBool then
        (True, storeNumber now (if qv_toBool val then 1 else 0) it)
      else if type (m_rid it) = DataTypeTime then
        (if qv_type val = QVariant_String then
           (case QDateTime_fromString localOffset (qv_toString val) of
              Some msecs \<Rightarrow> (True, storeNumber now (word_of_int msecs) it)
            | None \<Rightarrow> (False, it))
         else if qv_type val = QVariant_DateTime then
           (True, storeNumber now (qv_toDateTime_toMSecsSinceEpoch val) it)
         else (False, it))
      else
        (case qv_toInt val of
           Some n \<Rightarrow>
             if validMin (m_rid it) = 0 \<and> validMax (m_rid it) = 0 then
               (True, storeNumber now (scast n) it)
             else if validMin (m_rid it) \<le>s scast n \<and> scast n \<le>s validMax (m_rid it) then
               (True, storeNumber now (scast n) it)
             else (False, it)
         | None \<Rightarrow> (False, it)))"

definition descriptor :: "ResourceItem \<Rightarrow> ResourceItemDescriptor" where
  "descriptor it = m_rid it"

definition lastSet :: "ResourceItem \<Rightarrow> QDateTime" where
  "lastSet it = m_lastSet it"

definition lastChanged :: "ResourceItem \<Rightarrow> QDateTime" where
  "lastChanged it = m_lastChanged it"

definition setTimeStamps :: "QDateTime \<Rightarrow> ResourceItem \<Rightarrow> ResourceItem" where
  "setTimeStamps t it = it\<lparr>m_lastSet := t, m_lastChanged := t\<rparr>"

text \<open>
  \<^verbatim>\<open>ResourceItem::toVariant\<close>; it calls \<^verbatim>\<open>toString\<close> for a time item, so it returns the item
  as well.
\<close>

definition toVariant :: "int \<Rightarrow> ResourceItem \<Rightarrow> QVariant_Value \<times> ResourceItem" where
  "toVariant localOffset it =
     (if m_lastSet it = None then (QVariant_Invalid, it)
      else if type (m_rid it) = DataTypeString \<or> type (m_rid it) = DataTypeTimePattern then
        (case m_str it of
           Some s \<Rightarrow> (QVariant_QString s, it)
         | None \<Rightarrow> (QVariant_QString [], it))
      else if type (m_rid it) = DataTypeBool then (QVariant_bool (m_num it \<noteq> 0), it)
      else if type (m_rid it) = DataTypeTime then
        (QVariant_QString (fst (toString localOffset it)), snd (toString localOffset it))
      else (QVariant_double (m_num it), it))"

text \<open>
  \<^verbatim>\<open>ResourceItem::inRule\<close>. The loop variable of the source is a \<^verbatim>\<open>quint16\<close>: every stored
  \<^verbatim>\<open>int\<close> handle is narrowed to 16 bits, then widened again for the comparison with the
  \<^verbatim>\<open>int\<close> argument.
\<close>

fun inRule_found :: "32 word \<Rightarrow> 32 word list \<Rightarrow> bool" where
  "inRule_found ruleHandle [] = False"
| "inRule_found ruleHandle (h # hs) =
     (if (ucast (ucast h :: 16 word) :: 32 word) = ruleHandle then True
      else inRule_found ruleHandle hs)"

definition inRule :: "32 word \<Rightarrow> ResourceItem \<Rightarrow> ResourceItem" where
  "inRule ruleHandle it =
     (if inRule_found ruleHandle (m_rulesInvolved it) then it
      else it\<lparr>m_rulesInvolved := m_rulesInvolved it @ [ruleHandle]\<rparr>)"

definition rulesInvolved :: "ResourceItem \<Rightarrow> 32 word list" where
  "rulesInvolved it = m_rulesInvolved it"

definition isPublic :: "ResourceItem \<Rightarrow> bool" where
  "isPublic it = m_isPublic it"

definition setIsPublic :: "bool \<Rightarrow> ResourceItem \<Rightarrow> ResourceItem" where
  "setIsPublic b it = it\<lparr>m_isPublic := b\<rparr>"

text \<open>
  \<^verbatim>\<open>ResourceItem::operator=\<close> when \<^verbatim>\<open>this\<close> and \<^verbatim>\<open>other\<close> are different objects (the caller
  decides the self-assignment case, where nothing happens): every member is taken from
  \<open>other\<close>, the string through \<^verbatim>\<open>other.toString()\<close>.
\<close>

definition operator_assign :: "int \<Rightarrow> ResourceItem \<Rightarrow> ResourceItem" where
  "operator_assign localOffset other =
     \<lparr>m_isPublic = m_isPublic other,
      m_num = m_num other,
      m_numPrev = m_numPrev other,
      m_str = (case m_str other of
                 None \<Rightarrow> None
               | Some s \<Rightarrow> Some (fst (toString localOffset other))),
      m_rid = m_rid other,
      m_lastSet = lastSet other,
      m_lastChanged = lastChanged other,
      m_rulesInvolved = rulesInvolved other\<rparr>"

section \<open>Lookup in the descriptor table\<close>

text \<open>\<^verbatim>\<open>str.endsWith(QLatin1String(suffix))\<close>, case sensitive.\<close>

definition QString_endsWith :: "string \<Rightarrow> string \<Rightarrow> bool" where
  "QString_endsWith str s =
     (length s \<le> length str \<and> drop (length str - length s) str = s)"

text \<open>
  \<^verbatim>\<open>getResourceItemDescriptor\<close>: the loop over \<^verbatim>\<open>rItemDescriptors\<close> from \<^verbatim>\<open>begin()\<close> to
  \<^verbatim>\<open>end()\<close>. The source returns \<^verbatim>\<open>true\<close> and writes the descriptor to \<^verbatim>\<open>descr\<close>, or returns
  \<^verbatim>\<open>false\<close>; here \<open>Some\<close> of the descriptor, or \<open>None\<close>.
\<close>

fun getResourceItemDescriptor ::
    "ResourceItemDescriptor list \<Rightarrow> string \<Rightarrow> ResourceItemDescriptor option" where
  "getResourceItemDescriptor [] str = None"
| "getResourceItemDescriptor (d # ds) str =
     (if QString_endsWith str (chars (suffix d)) then Some d
      else getResourceItemDescriptor ds str)"

section \<open>Resource\<close>

definition Resource_ctor :: "cstr \<Rightarrow> Resource" where
  "Resource_ctor prefix = \<lparr>m_prefix = prefix, m_rItems = []\<rparr>"

text \<open>
  The scan shared by \<^verbatim>\<open>Resource::item\<close> and \<^verbatim>\<open>Resource::removeItem\<close>: the index of the first
  item whose descriptor's suffix pointer equals \<open>sfx\<close>.
\<close>

fun firstWithSuffix :: "cstr \<Rightarrow> ResourceItem list \<Rightarrow> nat option" where
  "firstWithSuffix sfx [] = None"
| "firstWithSuffix sfx (x # xs) =
     (if ptr (suffix (descriptor x)) = ptr sfx then Some 0
      else map_option Suc (firstWithSuffix sfx xs))"

text \<open>\<^verbatim>\<open>Resource::item\<close>: \<open>None\<close> is the null pointer.\<close>

definition item :: "cstr \<Rightarrow> Resource \<Rightarrow> nat option" where
  "item sfx r = firstWithSuffix sfx (m_rItems r)"

text \<open>
  Modelled from the spec: \<^verbatim>\<open>DBG_Assert\<close> and \<^verbatim>\<open>DBG_Printf\<close> are macros of the missing
  \<^verbatim>\<open>deconz.h\<close>. The spec has the failed assertion fatal in debug builds and a diagnostic in
  release builds; the model is the release build, where each macro reports and the function
  goes on to its \<^verbatim>\<open>return\<close>. What \<^verbatim>\<open>addItem\<close> reports is returned with its result.
\<close>

datatype Diagnostic = DBG_Assert_failed | DBG_Printf_unknown ApiDataType cstr

text \<open>
  \<^verbatim>\<open>Resource::addItem\<close> returns the pointer, the diagnostics and the resource as it is
  afterwards. The new item is built from the first descriptor of the table with this
  suffix pointer and this type. \<^verbatim>\<open>emplace_back\<close> moves the items that are there when the
  vector has to grow, which it does with the copy constructor of \<^verbatim>\<open>ResourceItem\<close>;
  \<open>reallocates\<close> says whether it has to, which is for the vector to decide.
\<close>

definition addItem ::
    "int \<Rightarrow> bool \<Rightarrow> bool \<Rightarrow> ResourceItemDescriptor list \<Rightarrow> ApiDataType \<Rightarrow> cstr \<Rightarrow>
     Resource \<Rightarrow> nat option \<times> Diagnostic list \<times> Resource" where
  "addItem localOffset reallocates isPublic0 rItemDescriptors ty sfx r =
     (case item sfx r of
        Some i \<Rightarrow> (Some i, [], r)
      | None \<Rightarrow>
          (case find (\<lambda>d. ptr (suffix d) = ptr sfx \<and> type d = ty) rItemDescriptors of
             Some d \<Rightarrow>
               (Some (length (m_rItems r)), [],
                r\<lparr>m_rItems :=
                    (if reallocates then map (operator_assign localOffset) (m_rItems r)
                     else m_rItems r) @ [ResourceItem_ctor isPublic0 d]\<rparr>)
           | None \<Rightarrow> (None, [DBG_Assert_failed, DBG_Printf_unknown ty sfx], r)))"

text \<open>
  \<^verbatim>\<open>Resource::removeItem\<close>: \<^verbatim>\<open>*i = m_rItems.back(); m_rItems.pop_back();\<close> at the first item
  with the suffix. When that item is the last one the assignment is a self-assignment.
\<close>

definition removeItem :: "int \<Rightarrow> cstr \<Rightarrow> Resource \<Rightarrow> Resource" where
  "removeItem localOffset sfx r =
     (case firstWithSuffix sfx (m_rItems r) of
        None \<Rightarrow> r
      | Some i \<Rightarrow>
          r\<lparr>m_rItems :=
              butlast (if i = length (m_rItems r) - 1 then m_rItems r
                       else (m_rItems r)[i := operator_assign localOffset (last (m_rItems r))])\<rparr>)"

text \<open>\<^verbatim>\<open>Resource::itemCount\<close>, the size of the vector.\<close>

definition itemCount :: "Resource \<Rightarrow> nat" where
  "itemCount r = length (m_rItems r)"

definition itemForIndex :: "nat \<Rightarrow> Resource \<Rightarrow> nat option" where
  "itemForIndex idx r = (if idx < length (m_rItems r) then Some idx else None)"

text \<open>
  The copy constructor of \<^verbatim>\<open>Resource\<close>: the vector is copied element by element with the
  copy constructor of \<^verbatim>\<open>ResourceItem\<close>, which is its assignment operator.
\<close>

definition Resource_copy :: "int \<Rightarrow> Resource \<Rightarrow> Resource" where
  "Resource_copy localOffset other =
     \<lparr>m_prefix = m_prefix other,
      m_rItems = map (operator_assign localOffset) (m_rItems other)\<rparr>"

section \<open>Invariants\<close>

text \<open>At most one item per suffix in a resource.\<close>

definition oneItemPerSuffix :: "Resource \<Rightarrow> bool" where
  "oneItemPerSuffix r = distinct (map (\<lambda>x. ptr (suffix (descriptor x))) (m_rItems r))"

section \<open>Example objects\<close>

text \<open>
  Items as \<^verbatim>\<open>addItem\<close> builds them from descriptors of the table, variants as a caller
  passes them, and a resource with three items.
\<close>

definition item_config_battery :: ResourceItem where
  "item_config_battery =
     ResourceItem_ctor True (ResourceItemDescriptor_ctor DataTypeUInt8 RConfigBattery 0 100)"

definition item_state_bri :: ResourceItem where
  "item_state_bri =
     ResourceItem_ctor True (ResourceItemDescriptor_ctor DataTypeUInt8 RStateBri 0 0)"

definition item_state_on :: ResourceItem where
  "item_state_on =
     ResourceItem_ctor True (ResourceItemDescriptor_ctor DataTypeBool RStateOn 0 0)"

definition item_attr_name :: ResourceItem where
  "item_attr_name =
     ResourceItem_ctor True (ResourceItemDescriptor_ctor DataTypeString RAttrName 0 0)"

definition item_state_lastupdated :: ResourceItem where
  "item_state_lastupdated =
     ResourceItem_ctor True (ResourceItemDescriptor_ctor DataTypeTime RStateLastUpdated 0 0)"

definition item_config_localtime :: ResourceItem where
  "item_config_localtime =
     ResourceItem_ctor True (ResourceItemDescriptor_ctor DataTypeTime RConfigLocalTime 0 0)"

definition item_state_bri_written :: ResourceItem where
  "item_state_bri_written = snd (setValue_qint64 1000 7 item_state_bri)"

definition invalid_variant :: QVariant where
  "invalid_variant =
     \<lparr>qv_isValid = False, qv_type = QVariant_OtherType, qv_toString = [],
      qv_toBool = False, qv_toInt = None, qv_toDateTime_toMSecsSinceEpoch = 0\<rparr>"

definition string_variant :: "string \<Rightarrow> QVariant" where
  "string_variant s =
     \<lparr>qv_isValid = True, qv_type = QVariant_String, qv_toString = s,
      qv_toBool = True, qv_toInt = None, qv_toDateTime_toMSecsSinceEpoch = 0\<rparr>"

definition light_resource :: Resource where
  "light_resource =
     snd (snd (addItem 0 False True initResourceDescriptors DataTypeUInt8 RConfigBattery
       (snd (snd (addItem 0 False True initResourceDescriptors DataTypeUInt8 RStateBri
         (snd (snd (addItem 0 False True initResourceDescriptors DataTypeBool RStateOn
           (Resource_ctor RLights)))))))))"

section \<open>Verified properties\<close>

subsection \<open>Auxiliary facts about the items\<close>

lemma storeNumber_fields:
  "m_lastSet (storeNumber now x it) = Some now"
  "m_num (storeNumber now x it) = x"
  "m_numPrev (storeNumber now x it) = m_num it"
  "m_str (storeNumber now x it) = m_str it"
  "m_rid (storeNumber now x it) = m_rid it"
  "m_lastChanged (storeNumber now x it) = (if m_num it \<noteq> x then Some now else m_lastChanged it)"
  "m_rulesInvolved (storeNumber now x it) = m_rulesInvolved it"
  "m_isPublic (storeNumber now x it) = m_isPublic it"
  by (simp_all add: storeNumber_def Let_def)

lemma setValue_qint64_True:
  "fst (setValue_qint64 now x it) \<Longrightarrow> snd (setValue_qint64 now x it) = storeNumber now x it"
  by (auto simp add: setValue_qint64_def split: if_splits)

lemma setValue_QString_True:
  "fst (setValue_QString now s it) \<Longrightarrow>
   m_lastSet (snd (setValue_QString now s it)) = Some now \<and>
   m_num (snd (setValue_QString now s it)) = m_num it \<and>
   m_rid (snd (setValue_QString now s it)) = m_rid it \<and>
   m_str (snd (setValue_QString now s it)) = Some s \<and>
   m_lastChanged (snd (setValue_QString now s it)) =
     (if m_str it \<noteq> Some s then Some now else m_lastChanged it)"
  by (simp add: setValue_QString_def Let_def split: option.splits)

lemma setValue_QVariant_True:
  "qv_isValid val \<Longrightarrow> fst (setValue_QVariant lo now val it) \<Longrightarrow>
   m_lastSet (snd (setValue_QVariant lo now val it)) = Some now \<and>
   m_rid (snd (setValue_QVariant lo now val it)) = m_rid it \<and>
   m_lastChanged (snd (setValue_QVariant lo now val it)) =
     (if m_num (snd (setValue_QVariant lo now val it)) \<noteq> m_num it \<or>
         m_str (snd (setValue_QVariant lo now val it)) \<noteq> m_str it
      then Some now else m_lastChanged it)"
  by (auto simp add: setValue_QVariant_def storeNumber_fields Let_def
      split: option.splits if_splits)

lemma item_state_bri_fields:
  "m_num item_state_bri = 0" "m_lastSet item_state_bri = None"
  "m_lastChanged item_state_bri = None" "m_str item_state_bri = None"
  "type (m_rid item_state_bri) = DataTypeUInt8"
  "validMin (m_rid item_state_bri) = 0" "validMax (m_rid item_state_bri) = 0"
  by (simp_all add: item_state_bri_def ResourceItem_ctor_def ResourceItemDescriptor_ctor_def)

lemma item_attr_name_fields:
  "m_num item_attr_name = 0" "m_lastSet item_attr_name = None"
  "m_lastChanged item_attr_name = None" "m_str item_attr_name = Some []"
  "type (m_rid item_attr_name) = DataTypeString"
  by (simp_all add: item_attr_name_def ResourceItem_ctor_def ResourceItemDescriptor_ctor_def)

subsection \<open>Range check of the numeric write\<close>

text \<open>
  Claim C1. When the descriptor has \<open>validMin = 0\<close> and \<open>validMax = 0\<close>, \<^verbatim>\<open>setValue(qint64)\<close>
  returns true for every 64-bit value. When one of the bounds is not zero, it returns false
  exactly when the value is below \<open>validMin\<close> or above \<open>validMax\<close> (signed comparison). When
  it returns false the item is unchanged: its value, previous value, \<open>lastSet\<close> and
  \<open>lastChanged\<close> in particular.
\<close>

theorem setValue_qint64_range:
  "(validMin (m_rid it) = 0 \<and> validMax (m_rid it) = 0 \<longrightarrow>
      fst (setValue_qint64 now v it) = True) \<and>
   (validMin (m_rid it) \<noteq> 0 \<or> validMax (m_rid it) \<noteq> 0 \<longrightarrow>
      (fst (setValue_qint64 now v it) = False) =
      (v <s validMin (m_rid it) \<or> validMax (m_rid it) <s v)) \<and>
   (fst (setValue_qint64 now v it) = False \<longrightarrow>
      snd (setValue_qint64 now v it) = it \<and>
      m_num (snd (setValue_qint64 now v it)) = m_num it \<and>
      m_numPrev (snd (setValue_qint64 now v it)) = m_numPrev it \<and>
      m_lastSet (snd (setValue_qint64 now v it)) = m_lastSet it \<and>
      m_lastChanged (snd (setValue_qint64 now v it)) = m_lastChanged it)"
  by (simp add: setValue_qint64_def)

text \<open>
  The brightness item has no range and takes the smallest 64-bit value; the battery item
  has the range 0 to 100, refuses 101 unchanged and takes 100.
\<close>

theorem setValue_qint64_range_witness:
  "validMin (m_rid item_state_bri) = 0 \<and> validMax (m_rid item_state_bri) = 0 \<and>
   fst (setValue_qint64 1000 (- 9223372036854775808) item_state_bri) = True \<and>
   validMax (m_rid item_config_battery) \<noteq> 0 \<and>
   validMax (m_rid item_config_battery) <s 101 \<and>
   fst (setValue_qint64 1000 101 item_config_battery) = False \<and>
   snd (setValue_qint64 1000 101 item_config_battery) = item_config_battery \<and>
   \<not> (100 <s validMin (m_rid item_config_battery) \<or>
      validMax (m_rid item_config_battery) <s 100) \<and>
   fst (setValue_qint64 1000 100 item_config_battery) = True"
proof -
  have a: "validMin (m_rid item_state_bri) = 0 \<and> validMax (m_rid item_state_bri) = 0"
    by (simp add: item_state_bri_def ResourceItem_ctor_def ResourceItemDescriptor_ctor_def)
  have b: "validMax (m_rid item_config_battery) = 100" "validMin (m_rid item_config_battery) = 0"
    by (simp_all add: item_config_battery_def ResourceItem_ctor_def ResourceItemDescriptor_ctor_def)
  have c: "validMax (m_rid item_config_battery) \<noteq> 0"
    by (simp add: b)
  have d: "validMax (m_rid item_config_battery) <s 101"
    by (simp add: b)
  have e: "\<not> (100 <s validMin (m_rid item_config_battery) \<or>
      validMax (m_rid item_config_battery) <s 100)"
    by (simp add: b word_sless_alt)
  have 1: "fst (setValue_qint64 1000 (- 9223372036854775808) item_state_bri) = True"
    using a setValue_qint64_range [of item_state_bri 1000 "- 9223372036854775808"] by blast
  have 2: "fst (setValue_qint64 1000 101 item_config_battery) = False"
    using c d setValue_qint64_range [of item_config_battery 1000 101] by blast
  have 3: "snd (setValue_qint64 1000 101 item_config_battery) = item_config_battery"
    using 2 setValue_qint64_range [of item_config_battery 1000 101] by blast
  have 4: "fst (setValue_qint64 1000 100 item_config_battery) = True"
    using c e setValue_qint64_range [of item_config_battery 1000 100] by blast
  show ?thesis
    using a c d e 1 2 3 4 by blast
qed

subsection \<open>Time stamps of a write\<close>

text \<open>
  Claim C2, amended. Every write through \<^verbatim>\<open>setValue(qint64)\<close>, \<^verbatim>\<open>setValue(const QString &)\<close>
  or \<^verbatim>\<open>setValue(const QVariant &)\<close> that returns true, the variant being a valid one, sets
  \<open>lastSet\<close> to the time of the call, and sets \<open>lastChanged\<close> to that time when the stored
  value (the number, or the string) differs from the one before and leaves it as it was
  otherwise. Writing the same number twice in a row succeeds both times, sets \<open>lastSet\<close>
  both times, and the second write leaves \<open>lastChanged\<close> as the first one left it.
\<close>

theorem write_timestamps:
  "(fst (setValue_qint64 now x it) \<longrightarrow>
      m_lastSet (snd (setValue_qint64 now x it)) = Some now \<and>
      m_lastChanged (snd (setValue_qint64 now x it)) =
        (if m_num (snd (setValue_qint64 now x it)) \<noteq> m_num it then Some now
         else m_lastChanged it)) \<and>
   (fst (setValue_QString now s it) \<longrightarrow>
      m_lastSet (snd (setValue_QString now s it)) = Some now \<and>
      m_lastChanged (snd (setValue_QString now s it)) =
        (if m_str (snd (setValue_QString now s it)) \<noteq> m_str it then Some now
         else m_lastChanged it)) \<and>
   (qv_isValid val \<and> fst (setValue_QVariant localOffset now val it) \<longrightarrow>
      m_lastSet (snd (setValue_QVariant localOffset now val it)) = Some now \<and>
      m_lastChanged (snd (setValue_QVariant localOffset now val it)) =
        (if m_num (snd (setValue_QVariant localOffset now val it)) \<noteq> m_num it \<or>
            m_str (snd (setValue_QVariant localOffset now val it)) \<noteq> m_str it
         then Some now else m_lastChanged it)) \<and>
   (fst (setValue_qint64 now x it) \<longrightarrow>
      fst (setValue_qint64 later x (snd (setValue_qint64 now x it))) \<and>
      m_lastSet (snd (setValue_qint64 later x (snd (setValue_qint64 now x it)))) = Some later \<and>
      m_lastChanged (snd (setValue_qint64 later x (snd (setValue_qint64 now x it)))) =
        m_lastChanged (snd (setValue_qint64 now x it)))"
proof (intro conjI impI)
  assume a: "fst (setValue_qint64 now x it)"
  show "m_lastSet (snd (setValue_qint64 now x it)) = Some now"
    by (simp add: setValue_qint64_True [OF a] storeNumber_fields)
  show "m_lastChanged (snd (setValue_qint64 now x it)) =
        (if m_num (snd (setValue_qint64 now x it)) \<noteq> m_num it then Some now
         else m_lastChanged it)"
    by (auto simp add: setValue_qint64_True [OF a] storeNumber_fields)
  have b: "fst (setValue_qint64 later x (storeNumber now x it))"
    using a by (simp add: setValue_qint64_def storeNumber_fields split: if_splits)
  show "fst (setValue_qint64 later x (snd (setValue_qint64 now x it)))"
    using b by (simp add: setValue_qint64_True [OF a])
  show "m_lastSet (snd (setValue_qint64 later x (snd (setValue_qint64 now x it)))) = Some later"
    using b by (simp add: setValue_qint64_True [OF a] setValue_qint64_True [OF b] storeNumber_fields)
  show "m_lastChanged (snd (setValue_qint64 later x (snd (setValue_qint64 now x it)))) =
        m_lastChanged (snd (setValue_qint64 now x it))"
    using b by (simp add: setValue_qint64_True [OF a] setValue_qint64_True [OF b] storeNumber_fields)
next
  assume a: "fst (setValue_QString now s it)"
  show "m_lastSet (snd (setValue_QString now s it)) = Some now"
    using setValue_QString_True [OF a] by simp
  show "m_lastChanged (snd (setValue_QString now s it)) =
        (if m_str (snd (setValue_QString now s it)) \<noteq> m_str it then Some now
         else m_lastChanged it)"
    using setValue_QString_True [OF a] by auto
next
  assume a: "qv_isValid val \<and> fst (setValue_QVariant localOffset now val it)"
  show "m_lastSet (snd (setValue_QVariant localOffset now val it)) = Some now"
    using a setValue_QVariant_True by blast
  show "m_lastChanged (snd (setValue_QVariant localOffset now val it)) =
        (if m_num (snd (setValue_QVariant localOffset now val it)) \<noteq> m_num it \<or>
            m_str (snd (setValue_QVariant localOffset now val it)) \<noteq> m_str it
         then Some now else m_lastChanged it)"
    using a setValue_QVariant_True by blast
qed

text \<open>
  Writing 7 to the fresh brightness item at time 1000 and again at time 2000; writing a
  name to the name item as a string and as a valid variant.
\<close>

theorem write_timestamps_witness:
  "fst (setValue_qint64 1000 7 item_state_bri) \<and>
   m_lastSet (snd (setValue_qint64 1000 7 item_state_bri)) = Some 1000 \<and>
   m_lastChanged (snd (setValue_qint64 1000 7 item_state_bri)) = Some 1000 \<and>
   m_lastSet (snd (setValue_qint64 2000 7 (snd (setValue_qint64 1000 7 item_state_bri)))) =
     Some 2000 \<and>
   m_lastChanged (snd (setValue_qint64 2000 7 (snd (setValue_qint64 1000 7 item_state_bri)))) =
     Some 1000 \<and>
   fst (setValue_QString 1000 ''lamp'' item_attr_name) \<and>
   m_lastSet (snd (setValue_QString 1000 ''lamp'' item_attr_name)) = Some 1000 \<and>
   qv_isValid (string_variant ''lamp'') \<and>
   fst (setValue_QVariant 0 1000 (string_variant ''lamp'') item_attr_name) \<and>
   m_lastSet (snd (setValue_QVariant 0 1000 (string_variant ''lamp'') item_attr_name)) =
     Some 1000"
proof -
  have a: "fst (setValue_qint64 1000 7 item_state_bri)"
    by (simp add: setValue_qint64_def item_state_bri_fields)
  have n: "m_num (snd (setValue_qint64 1000 7 item_state_bri)) \<noteq> m_num item_state_bri"
    by (simp add: setValue_qint64_def item_state_bri_fields storeNumber_fields)
  have b: "fst (setValue_QString 1000 ''lamp'' item_attr_name)"
    by (simp add: setValue_QString_def item_attr_name_fields Let_def)
  have c: "qv_isValid (string_variant ''lamp'')"
    by (simp add: string_variant_def)
  have d: "fst (setValue_QVariant 0 1000 (string_variant ''lamp'') item_attr_name)"
    by (simp add: setValue_QVariant_def string_variant_def item_attr_name_fields Let_def)
  note w1 = write_timestamps [of 1000 7 item_state_bri "''lamp''" "string_variant ''lamp''" 0 2000]
  note w2 = write_timestamps [of 1000 7 item_attr_name "''lamp''" "string_variant ''lamp''" 0 2000]
  have 1: "m_lastSet (snd (setValue_qint64 1000 7 item_state_bri)) = Some 1000"
    using w1 a by blast
  have 2: "m_lastChanged (snd (setValue_qint64 1000 7 item_state_bri)) = Some 1000"
    using w1 a n by presburger
  have 3: "m_lastSet (snd (setValue_qint64 2000 7 (snd (setValue_qint64 1000 7 item_state_bri)))) =
     Some 2000"
    using w1 a by blast
  have 4: "m_lastChanged (snd (setValue_qint64 2000 7 (snd (setValue_qint64 1000 7 item_state_bri)))) =
     Some 1000"
    using w1 a 2 by presburger
  have 5: "m_lastSet (snd (setValue_QString 1000 ''lamp'' item_attr_name)) = Some 1000"
    using w2 b by blast
  have 6: "m_lastSet (snd (setValue_QVariant 0 1000 (string_variant ''lamp'') item_attr_name)) =
     Some 1000"
    using w2 c d by blast
  show ?thesis
    using a b c d 1 2 3 4 5 6 by blast
qed

text \<open>
  Claim C2 as stated covers every accepted write through the variant overload, and fails for
  the invalid variant: the call returns true, \<open>lastSet\<close> is not the time of the call but the
  invalid date-time, and \<open>lastChanged\<close> changes although the stored number and string do not.
\<close>

theorem invalid_write_clears_lastSet:
  "fst (setValue_QVariant 0 2000 invalid_variant item_state_bri_written) = True \<and>
   m_lastSet (snd (setValue_QVariant 0 2000 invalid_variant item_state_bri_written)) \<noteq> Some 2000 \<and>
   m_num (snd (setValue_QVariant 0 2000 invalid_variant item_state_bri_written)) =
     m_num item_state_bri_written \<and>
   m_str (snd (setValue_QVariant 0 2000 invalid_variant item_state_bri_written)) =
     m_str item_state_bri_written \<and>
   m_lastChanged (snd (setValue_QVariant 0 2000 invalid_variant item_state_bri_written)) \<noteq>
     m_lastChanged item_state_bri_written"
  by (simp add: setValue_QVariant_def invalid_variant_def item_state_bri_written_def
      setValue_qint64_def item_state_bri_def ResourceItem_ctor_def ResourceItemDescriptor_ctor_def
      storeNumber_fields)

subsection \<open>Lookup by suffix\<close>

lemma QString_endsWith_iff: "QString_endsWith str s = (\<exists>p. str = p @ s)"
proof
  assume "QString_endsWith str s"
  then have "str = take (length str - length s) str @ s"
    by (metis QString_endsWith_def append_take_drop_id)
  then show "\<exists>p. str = p @ s" ..
next
  assume "\<exists>p. str = p @ s"
  then show "QString_endsWith str s"
    by (auto simp add: QString_endsWith_def)
qed

lemma getResourceItemDescriptor_None:
  "(getResourceItemDescriptor ds str = None) =
   (\<forall>d \<in> set ds. \<not> QString_endsWith str (chars (suffix d)))"
  by (induction ds) auto

lemma getResourceItemDescriptor_Some:
  "(getResourceItemDescriptor ds str = Some d) =
   (\<exists>i < length ds. ds ! i = d \<and> QString_endsWith str (chars (suffix d)) \<and>
      (\<forall>j < i. \<not> QString_endsWith str (chars (suffix (ds ! j)))))"
proof (induction ds)
  case Nil
  then show ?case by simp
next
  case (Cons a ds)
  show ?case
  proof (cases "QString_endsWith str (chars (suffix a))")
    case True
    have "(a = d) = (\<exists>i < length (a # ds). (a # ds) ! i = d \<and>
        QString_endsWith str (chars (suffix d)) \<and>
        (\<forall>j < i. \<not> QString_endsWith str (chars (suffix ((a # ds) ! j)))))"
    proof
      assume "a = d"
      with True show "\<exists>i < length (a # ds). (a # ds) ! i = d \<and>
        QString_endsWith str (chars (suffix d)) \<and>
        (\<forall>j < i. \<not> QString_endsWith str (chars (suffix ((a # ds) ! j))))"
        by (intro exI [of _ 0]) simp
    next
      assume "\<exists>i < length (a # ds). (a # ds) ! i = d \<and>
        QString_endsWith str (chars (suffix d)) \<and>
        (\<forall>j < i. \<not> QString_endsWith str (chars (suffix ((a # ds) ! j))))"
      then obtain i where i: "(a # ds) ! i = d"
        "\<forall>j < i. \<not> QString_endsWith str (chars (suffix ((a # ds) ! j)))"
        by blast
      have "i = 0"
      proof (rule ccontr)
        assume "i \<noteq> 0"
        then have "0 < i" by simp
        with i(2) have "\<not> QString_endsWith str (chars (suffix ((a # ds) ! 0)))" by blast
        with True show False by simp
      qed
      with i(1) show "a = d" by simp
    qed
    with True show ?thesis by simp
  next
    case False
    have "(\<exists>i < length ds. ds ! i = d \<and> QString_endsWith str (chars (suffix d)) \<and>
        (\<forall>j < i. \<not> QString_endsWith str (chars (suffix (ds ! j))))) =
      (\<exists>i < length (a # ds). (a # ds) ! i = d \<and>
        QString_endsWith str (chars (suffix d)) \<and>
        (\<forall>j < i. \<not> QString_endsWith str (chars (suffix ((a # ds) ! j)))))"
    proof
      assume "\<exists>i < length ds. ds ! i = d \<and> QString_endsWith str (chars (suffix d)) \<and>
        (\<forall>j < i. \<not> QString_endsWith str (chars (suffix (ds ! j))))"
      then obtain i where i: "i < length ds" "ds ! i = d"
        "QString_endsWith str (chars (suffix d))"
        "\<forall>j < i. \<not> QString_endsWith str (chars (suffix (ds ! j)))"
        by blast
      have "\<forall>j < Suc i. \<not> QString_endsWith str (chars (suffix ((a # ds) ! j)))"
        using i(4) False by (simp add: nth_Cons split: nat.splits)
      with i(1-3) show "\<exists>i < length (a # ds). (a # ds) ! i = d \<and>
        QString_endsWith str (chars (suffix d)) \<and>
        (\<forall>j < i. \<not> QString_endsWith str (chars (suffix ((a # ds) ! j))))"
        by (intro exI [of _ "Suc i"]) simp
    next
      assume "\<exists>i < length (a # ds). (a # ds) ! i = d \<and>
        QString_endsWith str (chars (suffix d)) \<and>
        (\<forall>j < i. \<not> QString_endsWith str (chars (suffix ((a # ds) ! j))))"
      then obtain i where i: "i < length (a # ds)" "(a # ds) ! i = d"
        "QString_endsWith str (chars (suffix d))"
        "\<forall>j < i. \<not> QString_endsWith str (chars (suffix ((a # ds) ! j)))"
        by blast
      from i(2,3) False have "i \<noteq> 0" by (cases i) auto
      then obtain k where k: "i = Suc k" by (cases i) auto
      have "\<forall>j < k. \<not> QString_endsWith str (chars (suffix (ds ! j)))"
      proof (intro allI impI)
        fix j assume "j < k"
        then have "Suc j < i" using k by simp
        with i(4) have "\<not> QString_endsWith str (chars (suffix ((a # ds) ! Suc j)))" by blast
        then show "\<not> QString_endsWith str (chars (suffix (ds ! j)))" by simp
      qed
      with i(1-3) k show "\<exists>i < length ds. ds ! i = d \<and>
        QString_endsWith str (chars (suffix d)) \<and>
        (\<forall>j < i. \<not> QString_endsWith str (chars (suffix (ds ! j))))"
        by (intro exI [of _ k]) simp
    qed
    with False Cons.IH show ?thesis by simp
  qed
qed

lemma lookup_state_battery:
  "getResourceItemDescriptor initResourceDescriptors ''/sensors/1/state/battery'' = None"
  by code_simp

lemma lookup_config_battery:
  "getResourceItemDescriptor initResourceDescriptors ''config/battery'' =
     Some (ResourceItemDescriptor_ctor DataTypeUInt8 RConfigBattery 0 100)"
  by code_simp

lemma lookup_xyz_config_battery:
  "getResourceItemDescriptor initResourceDescriptors ''xyz/config/battery'' =
     Some (ResourceItemDescriptor_ctor DataTypeUInt8 RConfigBattery 0 100)"
  by code_simp

lemma no_match_state_battery:
  "\<not> QString_endsWith ''/sensors/1/state/battery'' (chars RConfigBattery)"
  by (simp add: QString_endsWith_def RConfigBattery_def)

lemma config_battery_registered:
  "ResourceItemDescriptor_ctor DataTypeUInt8 RConfigBattery 0 100 \<in> set initResourceDescriptors"
  by (simp add: initResourceDescriptors_def)

text \<open>
  Claim C3. \<^verbatim>\<open>getResourceItemDescriptor\<close> returns the first descriptor of the table, in the
  order of registration, whose suffix the key ends with, and nothing when the key ends with
  no registered suffix; a key ends with a suffix when it is some text followed by the suffix.
  In the table of \<^verbatim>\<open>initResourceDescriptors\<close>, the key \<^verbatim>\<open>/sensors/1/state/battery\<close> does not
  end with \<^verbatim>\<open>config/battery\<close> (and is not found at all), while \<^verbatim>\<open>config/battery\<close> and
  \<^verbatim>\<open>xyz/config/battery\<close> both find the descriptor of \<^verbatim>\<open>config/battery\<close>.
\<close>

theorem getResourceItemDescriptor_first_match:
  "((getResourceItemDescriptor ds str = None) =
      (\<forall>d \<in> set ds. \<not> QString_endsWith str (chars (suffix d)))) \<and>
   ((getResourceItemDescriptor ds str = Some d) =
      (\<exists>i < length ds. ds ! i = d \<and> QString_endsWith str (chars (suffix d)) \<and>
         (\<forall>j < i. \<not> QString_endsWith str (chars (suffix (ds ! j)))))) \<and>
   (QString_endsWith str s = (\<exists>p. str = p @ s)) \<and>
   \<not> QString_endsWith ''/sensors/1/state/battery'' (chars RConfigBattery) \<and>
   getResourceItemDescriptor initResourceDescriptors ''/sensors/1/state/battery'' = None \<and>
   getResourceItemDescriptor initResourceDescriptors ''config/battery'' =
     Some (ResourceItemDescriptor_ctor DataTypeUInt8 RConfigBattery 0 100) \<and>
   getResourceItemDescriptor initResourceDescriptors ''xyz/config/battery'' =
     Some (ResourceItemDescriptor_ctor DataTypeUInt8 RConfigBattery 0 100)"
  using getResourceItemDescriptor_None [of ds str] getResourceItemDescriptor_Some [of ds str d]
    QString_endsWith_iff [of str s] no_match_state_battery lookup_state_battery
    lookup_config_battery lookup_xyz_config_battery
  by blast

text \<open>
  In the table of \<^verbatim>\<open>initResourceDescriptors\<close>: the descriptor of \<^verbatim>\<open>config/battery\<close> is
  registered and does not match \<^verbatim>\<open>/sensors/1/state/battery\<close>; it is at the first position
  that matches \<^verbatim>\<open>xyz/config/battery\<close>.
\<close>

theorem getResourceItemDescriptor_first_match_witness:
  "ResourceItemDescriptor_ctor DataTypeUInt8 RConfigBattery 0 100 \<in> set initResourceDescriptors \<and>
   \<not> QString_endsWith ''/sensors/1/state/battery''
        (chars (suffix (ResourceItemDescriptor_ctor DataTypeUInt8 RConfigBattery 0 100))) \<and>
   (\<exists>i < length initResourceDescriptors.
      initResourceDescriptors ! i = ResourceItemDescriptor_ctor DataTypeUInt8 RConfigBattery 0 100 \<and>
      QString_endsWith ''xyz/config/battery''
        (chars (suffix (ResourceItemDescriptor_ctor DataTypeUInt8 RConfigBattery 0 100))) \<and>
      (\<forall>j < i. \<not> QString_endsWith ''xyz/config/battery''
        (chars (suffix (initResourceDescriptors ! j)))))"
proof -
  note t1 = getResourceItemDescriptor_first_match [of initResourceDescriptors
      "''/sensors/1/state/battery''"]
  note t2 = getResourceItemDescriptor_first_match [of initResourceDescriptors
      "''xyz/config/battery''" "ResourceItemDescriptor_ctor DataTypeUInt8 RConfigBattery 0 100"]
  have 1: "\<forall>d \<in> set initResourceDescriptors.
      \<not> QString_endsWith ''/sensors/1/state/battery'' (chars (suffix d))"
    using t1 by blast
  have 2: "\<not> QString_endsWith ''/sensors/1/state/battery''
        (chars (suffix (ResourceItemDescriptor_ctor DataTypeUInt8 RConfigBattery 0 100)))"
    using 1 config_battery_registered by blast
  have 3: "\<exists>i < length initResourceDescriptors.
      initResourceDescriptors ! i = ResourceItemDescriptor_ctor DataTypeUInt8 RConfigBattery 0 100 \<and>
      QString_endsWith ''xyz/config/battery''
        (chars (suffix (ResourceItemDescriptor_ctor DataTypeUInt8 RConfigBattery 0 100))) \<and>
      (\<forall>j < i. \<not> QString_endsWith ''xyz/config/battery''
        (chars (suffix (initResourceDescriptors ! j))))"
    using t2 by blast
  show ?thesis
    using config_battery_registered 2 3 by blast
qed

subsection \<open>Time items as strings\<close>

lemma parse_2024: "QDateTime_parse ''2024-01-01T00:00:00'' = Some 1704067200"
  by code_simp

lemma format_2024: "QDateTime_format 1704067200 = ''2024-01-01T00:00:00''"
  by code_simp

lemma format_2023: "QDateTime_format 1704063600 = ''2023-12-31T23:00:00''"
  by code_simp

lemma format_1970_local: "QDateTime_format 3600 = ''1970-01-01T01:00:00''"
  by code_simp

lemma fromString_2024:
  "QDateTime_fromString localOffset ''2024-01-01T00:00:00'' =
     Some ((1704067200 - localOffset) * 1000)"
  by (simp add: QDateTime_fromString_def parse_2024)

lemma sint_word_of_int_64:
  "- (2 ^ 63) \<le> k \<Longrightarrow> k < 2 ^ 63 \<Longrightarrow> sint (word_of_int k :: 64 word) = k"
  by (simp add: sint_sbintrunc' signed_take_bit_int_eq_self)

lemma toString_time:
  "type (m_rid j) = DataTypeTime \<Longrightarrow> m_str j \<noteq> None \<Longrightarrow>
   fst (toString localOffset j) =
     QDateTime_toString (if ptr (suffix (m_rid j)) = ptr RStateLastUpdated then 0 else localOffset)
       (sint (m_num j))"
  by (auto simp add: toString_def Let_def split: option.splits)

lemma toString_time_again:
  "type (m_rid j) = DataTypeTime \<Longrightarrow>
   fst (toString localOffset (snd (toString localOffset j))) = fst (toString localOffset j)"
  by (auto simp add: toString_def Let_def split: option.splits)

lemma toString_time_buffer:
  "type (m_rid j) = DataTypeTime \<Longrightarrow>
   fst (toString localOffset (j\<lparr>m_str := Some b\<rparr>)) =
     QDateTime_toString (if ptr (suffix (m_rid j)) = ptr RStateLastUpdated then 0 else localOffset)
       (sint (m_num j))"
  by (auto simp add: toString_def Let_def split: option.splits)

text \<open>
  Claim C4, amended. For a time item with its buffer, writing the string variant
  \<^verbatim>\<open>2024-01-01T00:00:00\<close> succeeds, and \<^verbatim>\<open>toString\<close> then returns \<^verbatim>\<open>2024-01-01T00:00:00\<close> when
  the item is not \<^verbatim>\<open>state/lastupdated\<close>, or when local time is UTC. \<^verbatim>\<open>toString\<close> formats the
  number as milliseconds since the epoch, in UTC for \<^verbatim>\<open>state/lastupdated\<close> and in local time
  for every other time item; it formats again on every call, whatever the buffer holds.
  Local time is within a day of UTC.
\<close>

theorem time_round_trip:
  assumes "type (m_rid it) = DataTypeTime" and "m_str it \<noteq> None"
    and "qv_isValid val" and "qv_type val = QVariant_String"
    and "qv_toString val = ''2024-01-01T00:00:00''"
    and "- 86400 \<le> localOffset" and "localOffset \<le> 86400"
  shows "fst (setValue_QVariant localOffset now val it) \<and>
         (ptr (suffix (m_rid it)) \<noteq> ptr RStateLastUpdated \<or> localOffset = 0 \<longrightarrow>
            fst (toString localOffset (snd (setValue_QVariant localOffset now val it))) =
              ''2024-01-01T00:00:00'') \<and>
         fst (toString localOffset it) =
           QDateTime_toString
             (if ptr (suffix (m_rid it)) = ptr RStateLastUpdated then 0 else localOffset)
             (sint (m_num it)) \<and>
         fst (toString localOffset (it\<lparr>m_str := Some b\<rparr>)) = fst (toString localOffset it) \<and>
         fst (toString localOffset (snd (toString localOffset it))) =
           fst (toString localOffset it)"
proof -
  define ms where "ms = (1704067200 - localOffset) * 1000"
  have parse: "QDateTime_fromString localOffset ''2024-01-01T00:00:00'' = Some ms"
    by (simp add: fromString_2024 ms_def)
  have bounds: "- (2 ^ 63) \<le> ms" "ms < 2 ^ 63"
    using assms(6,7) by (simp_all add: ms_def)
  have secs: "ms div 1000 + localOffset = 1704067200"
    by (simp add: ms_def)
  have secs0: "localOffset = 0 \<Longrightarrow> ms div 1000 = 1704067200"
    by (simp add: ms_def)
  have set: "setValue_QVariant localOffset now val it = (True, storeNumber now (word_of_int ms) it)"
    using assms(1,3,4,5) by (simp add: setValue_QVariant_def parse)
  define it' where "it' = storeNumber now (word_of_int ms :: 64 word) it"
  have ty: "type (m_rid it') = DataTypeTime" and buf: "m_str it' \<noteq> None"
    and sfx: "suffix (m_rid it') = suffix (m_rid it)"
    using assms(1,2) by (simp_all add: it'_def storeNumber_fields)
  have num: "sint (m_num it') = ms"
    using sint_word_of_int_64 [OF bounds] by (simp add: it'_def storeNumber_fields)
  have fmt: "fst (toString localOffset it') =
      QDateTime_toString
        (if ptr (suffix (m_rid it)) = ptr RStateLastUpdated then 0 else localOffset) ms"
    using toString_time [OF ty buf, of localOffset] by (simp add: sfx num)
  have rt: "ptr (suffix (m_rid it)) \<noteq> ptr RStateLastUpdated \<or> localOffset = 0 \<longrightarrow>
      fst (toString localOffset it') = ''2024-01-01T00:00:00''"
    using secs secs0 by (auto simp add: fmt QDateTime_toString_def format_2024)
  have 1: "fst (setValue_QVariant localOffset now val it)"
    by (simp add: set)
  have 2: "snd (setValue_QVariant localOffset now val it) = it'"
    by (simp add: set it'_def)
  have 3: "fst (toString localOffset (it\<lparr>m_str := Some b\<rparr>)) = fst (toString localOffset it)"
    using toString_time [OF assms(1,2), of localOffset]
      toString_time_buffer [OF assms(1), of localOffset b] by simp
  show ?thesis
    unfolding 2
    using 1 rt 3 toString_time [OF assms(1,2), of localOffset]
      toString_time_again [OF assms(1), of localOffset]
    by blast
qed

text \<open>
  The item \<^verbatim>\<open>config/localtime\<close>, one hour east of Greenwich: the string that is written is the
  string that is read.
\<close>

theorem time_round_trip_witness:
  "type (m_rid item_config_localtime) = DataTypeTime \<and>
   m_str item_config_localtime \<noteq> None \<and>
   qv_isValid (string_variant ''2024-01-01T00:00:00'') \<and>
   qv_type (string_variant ''2024-01-01T00:00:00'') = QVariant_String \<and>
   qv_toString (string_variant ''2024-01-01T00:00:00'') = ''2024-01-01T00:00:00'' \<and>
   ptr (suffix (m_rid item_config_localtime)) \<noteq> ptr RStateLastUpdated \<and>
   fst (setValue_QVariant 3600 1000 (string_variant ''2024-01-01T00:00:00'')
     item_config_localtime) \<and>
   fst (toString 3600 (snd (setValue_QVariant 3600 1000
     (string_variant ''2024-01-01T00:00:00'') item_config_localtime))) =
     ''2024-01-01T00:00:00''"
proof -
  have a: "type (m_rid item_config_localtime) = DataTypeTime"
    and b: "m_str item_config_localtime \<noteq> None"
    and s: "ptr (suffix (m_rid item_config_localtime)) \<noteq> ptr RStateLastUpdated"
    by (simp_all add: item_config_localtime_def ResourceItem_ctor_def
        ResourceItemDescriptor_ctor_def RConfigLocalTime_def RStateLastUpdated_def)
  have c: "qv_isValid (string_variant ''2024-01-01T00:00:00'')"
    and d: "qv_type (string_variant ''2024-01-01T00:00:00'') = QVariant_String"
    and e: "qv_toString (string_variant ''2024-01-01T00:00:00'') = ''2024-01-01T00:00:00''"
    by (simp_all add: string_variant_def)
  have f: "- 86400 \<le> (3600 :: int)" and g: "(3600 :: int) \<le> 86400"
    by simp_all
  note t = time_round_trip [OF a b c d e f g, of 1000]
  show ?thesis
    using a b c d e s t by blast
qed

text \<open>
  Claim C4 as stated covers every time item, and fails for \<^verbatim>\<open>state/lastupdated\<close> one hour
  east of Greenwich: the string is read as local time and written back in UTC, an hour
  earlier. Its second part fails there for \<^verbatim>\<open>config/localtime\<close>: the number 0 is the epoch,
  and is formatted as one o'clock, in local time.
\<close>

theorem time_round_trip_off_utc:
  "fst (setValue_QVariant 3600 1000 (string_variant ''2024-01-01T00:00:00'')
     item_state_lastupdated) \<and>
   fst (toString 3600 (snd (setValue_QVariant 3600 1000
     (string_variant ''2024-01-01T00:00:00'') item_state_lastupdated))) =
     ''2023-12-31T23:00:00'' \<and>
   fst (toString 3600 (snd (setValue_QVariant 3600 1000
     (string_variant ''2024-01-01T00:00:00'') item_state_lastupdated))) \<noteq>
     ''2024-01-01T00:00:00'' \<and>
   m_num item_config_localtime = 0 \<and>
   fst (toString 3600 item_config_localtime) = ''1970-01-01T01:00:00''"
proof -
  have set: "setValue_QVariant 3600 1000 (string_variant ''2024-01-01T00:00:00'')
      item_state_lastupdated =
      (True, storeNumber 1000 1704063600000 item_state_lastupdated)"
    by (simp add: setValue_QVariant_def string_variant_def item_state_lastupdated_def
        ResourceItem_ctor_def ResourceItemDescriptor_ctor_def fromString_2024)
  have 1: "fst (toString 3600 (storeNumber 1000 1704063600000 item_state_lastupdated)) =
      QDateTime_format 1704063600"
    by (simp add: toString_def storeNumber_fields item_state_lastupdated_def
        ResourceItem_ctor_def ResourceItemDescriptor_ctor_def QDateTime_toString_def Let_def)
  have 2: "fst (toString 3600 item_config_localtime) = QDateTime_format 3600"
    by (simp add: toString_def item_config_localtime_def ResourceItem_ctor_def
        ResourceItemDescriptor_ctor_def QDateTime_toString_def Let_def RConfigLocalTime_def
        RStateLastUpdated_def)
  have 3: "m_num item_config_localtime = 0"
    by (simp add: item_config_localtime_def ResourceItem_ctor_def)
  show ?thesis
    by (simp add: set 1 2 3 format_2023 format_1970_local)
qed

subsection \<open>Rules an item is involved in\<close>

lemma inRule_found_append:
  "inRule_found r (hs @ [h]) =
   (inRule_found r hs \<or> (ucast (ucast h :: 16 word) :: 32 word) = r)"
  by (induction hs) auto

lemma inRule_idempotent_quint16:
  "(ucast (ucast r :: 16 word) :: 32 word) = r \<Longrightarrow> inRule r (inRule r it) = inRule r it"
  by (simp add: inRule_def inRule_found_append)

text \<open>
  Claim C5. On a fresh item, \<^verbatim>\<open>inRule(5)\<close> called twice leaves the handles \<open>[5]\<close>, as the claim
  says. \<^verbatim>\<open>inRule(70000)\<close> called twice leaves \<open>[70000, 70000]\<close>: the scan narrows the stored
  handle to 16 bits, 4464, which is not the argument, so the second call appends again.
\<close>

theorem inRule_twice:
  "rulesInvolved (inRule 5 (inRule 5 item_state_bri)) = [5] \<and>
   rulesInvolved (inRule 70000 (inRule 70000 item_state_bri)) = [70000, 70000]"
  by (simp add: rulesInvolved_def inRule_def item_state_bri_def ResourceItem_ctor_def)

subsection \<open>The items of a resource\<close>

lemma swap_pop_distinct:
  assumes "distinct ks" and "i < length ks"
  shows "distinct (butlast (if i = length ks - 1 then ks else ks[i := last ks]))"
    and "ks ! i \<notin> set (butlast (if i = length ks - 1 then ks else ks[i := last ks]))"
proof -
  from assms(2) have ne: "ks \<noteq> []" by auto
  have lst: "last ks = ks ! (length ks - 1)"
    using ne by (rule last_conv_nth)
  show "distinct (butlast (if i = length ks - 1 then ks else ks[i := last ks]))"
  proof (cases "i = length ks - 1")
    case True
    with assms(1) show ?thesis by (simp add: distinct_butlast)
  next
    case False
    with assms show ?thesis
      by (auto simp add: distinct_conv_nth nth_butlast nth_list_update lst)
  qed
  show "ks ! i \<notin> set (butlast (if i = length ks - 1 then ks else ks[i := last ks]))"
  proof (cases "i = length ks - 1")
    case True
    with assms show ?thesis
      by (auto simp add: distinct_conv_nth in_set_conv_nth nth_butlast)
  next
    case False
    with assms show ?thesis
      by (auto simp add: distinct_conv_nth in_set_conv_nth nth_butlast nth_list_update lst)
  qed
qed

lemma firstWithSuffix_None:
  "(firstWithSuffix sfx xs = None) =
   (\<forall>x \<in> set xs. ptr (suffix (descriptor x)) \<noteq> ptr sfx)"
  by (induction xs) auto

lemma firstWithSuffix_Some:
  "firstWithSuffix sfx xs = Some i \<Longrightarrow>
   i < length xs \<and> ptr (suffix (descriptor (xs ! i))) = ptr sfx"
  by (induction xs arbitrary: i) (auto split: if_splits)

lemma firstWithSuffix_append:
  "firstWithSuffix sfx xs = None \<Longrightarrow> ptr (suffix (descriptor x)) = ptr sfx \<Longrightarrow>
   firstWithSuffix sfx (xs @ [x]) = Some (length xs)"
  by (induction xs) (auto split: if_splits)

lemma descriptor_operator_assign:
  "descriptor (operator_assign localOffset other) = descriptor other"
  by (simp add: descriptor_def operator_assign_def)

lemma firstWithSuffix_copies:
  "firstWithSuffix sfx (map (operator_assign localOffset) xs) = firstWithSuffix sfx xs"
  by (induction xs) (simp_all add: descriptor_operator_assign)

lemma keys_removeItem:
  assumes "firstWithSuffix sfx (m_rItems r) = Some i"
  shows "map (\<lambda>x. ptr (suffix (descriptor x))) (m_rItems (removeItem localOffset sfx r)) =
     butlast (if i = length (map (\<lambda>x. ptr (suffix (descriptor x))) (m_rItems r)) - 1
              then map (\<lambda>x. ptr (suffix (descriptor x))) (m_rItems r)
              else (map (\<lambda>x. ptr (suffix (descriptor x))) (m_rItems r))
                     [i := last (map (\<lambda>x. ptr (suffix (descriptor x))) (m_rItems r))])"
proof -
  from assms have "m_rItems r \<noteq> []"
    by (cases "m_rItems r") auto
  with assms show ?thesis
    by (simp add: removeItem_def map_butlast map_update last_map descriptor_operator_assign)
qed

lemma removeItem_keeps_invariant:
  "oneItemPerSuffix r \<Longrightarrow> oneItemPerSuffix (removeItem localOffset sfx r)"
proof (cases "firstWithSuffix sfx (m_rItems r)")
  case None
  assume "oneItemPerSuffix r"
  with None show ?thesis by (simp add: removeItem_def)
next
  case (Some i)
  assume inv: "oneItemPerSuffix r"
  from Some have i: "i < length (map (\<lambda>x. ptr (suffix (descriptor x))) (m_rItems r))"
    using firstWithSuffix_Some by fastforce
  from inv have d: "distinct (map (\<lambda>x. ptr (suffix (descriptor x))) (m_rItems r))"
    by (simp add: oneItemPerSuffix_def)
  show ?thesis
    unfolding oneItemPerSuffix_def keys_removeItem [OF Some]
    using d i by (rule swap_pop_distinct(1))
qed

lemma removeItem_removes:
  assumes inv: "oneItemPerSuffix r" and present: "item sfx r = Some i"
  shows "item sfx (removeItem localOffset sfx r) = None"
proof -
  let ?key = "\<lambda>x. ptr (suffix (descriptor x))"
  from present have f: "firstWithSuffix sfx (m_rItems r) = Some i"
    by (simp add: item_def)
  then have i: "i < length (map ?key (m_rItems r))" and k: "?key (m_rItems r ! i) = ptr sfx"
    using firstWithSuffix_Some by fastforce+
  from inv have d: "distinct (map ?key (m_rItems r))"
    by (simp add: oneItemPerSuffix_def)
  have "map ?key (m_rItems r) ! i \<notin>
        set (map ?key (m_rItems (removeItem localOffset sfx r)))"
    unfolding keys_removeItem [OF f]
    using d i by (rule swap_pop_distinct(2))
  moreover have "map ?key (m_rItems r) ! i = ptr sfx"
    using i k by simp
  ultimately have "ptr sfx \<notin> set (map ?key (m_rItems (removeItem localOffset sfx r)))"
    by simp
  then show ?thesis
    by (force simp add: item_def firstWithSuffix_None)
qed

lemma addItem_keeps_invariant:
  "oneItemPerSuffix r \<Longrightarrow>
   oneItemPerSuffix
        (snd (snd (addItem localOffset reallocates isPublic0 rItemDescriptors ty sfx r)))"
  by (auto simp add: addItem_def oneItemPerSuffix_def item_def firstWithSuffix_None
      ResourceItem_ctor_def descriptor_def find_Some_iff comp_def operator_assign_def
      split: option.splits)

lemma Resource_copy_keeps_invariant:
  "oneItemPerSuffix r \<Longrightarrow> oneItemPerSuffix (Resource_copy localOffset r)"
  by (simp add: oneItemPerSuffix_def Resource_copy_def comp_def descriptor_operator_assign)

lemma addItem_present:
  "item sfx r = Some i \<Longrightarrow>
   addItem localOffset reallocates isPublic0 rItemDescriptors ty sfx r = (Some i, [], r)"
  by (simp add: addItem_def)

lemma addItem_then_present:
  assumes "fst (addItem localOffset reallocates isPublic0 rItemDescriptors ty sfx r) = Some i"
  shows "item sfx
        (snd (snd (addItem localOffset reallocates isPublic0 rItemDescriptors ty sfx r))) = Some i"
proof (cases "item sfx r")
  case (Some j)
  with assms show ?thesis by (simp add: addItem_def)
next
  case None
  with assms obtain d where d: "find (\<lambda>d. ptr (suffix d) = ptr sfx \<and> type d = ty) rItemDescriptors = Some d"
    by (auto simp add: addItem_def split: option.splits)
  then have "ptr (suffix d) = ptr sfx"
    by (auto simp add: find_Some_iff)
  then have "firstWithSuffix sfx
        ((if reallocates then map (operator_assign localOffset) (m_rItems r) else m_rItems r) @
         [ResourceItem_ctor isPublic0 d]) =
        Some (length (if reallocates then map (operator_assign localOffset) (m_rItems r)
                      else m_rItems r))"
    using None
    by (intro firstWithSuffix_append)
      (simp_all add: item_def descriptor_def ResourceItem_ctor_def firstWithSuffix_copies)
  with assms None d show ?thesis
    by (simp add: addItem_def item_def)
qed

lemma operator_assign_fields:
  "m_isPublic (operator_assign localOffset other) = m_isPublic other"
  "m_num (operator_assign localOffset other) = m_num other"
  "m_numPrev (operator_assign localOffset other) = m_numPrev other"
  "m_rid (operator_assign localOffset other) = m_rid other"
  "m_lastSet (operator_assign localOffset other) = m_lastSet other"
  "m_lastChanged (operator_assign localOffset other) = m_lastChanged other"
  "m_rulesInvolved (operator_assign localOffset other) = m_rulesInvolved other"
  "(m_str (operator_assign localOffset other) = None) = (m_str other = None)"
  by (simp_all add: operator_assign_def lastSet_def lastChanged_def rulesInvolved_def
      split: option.splits)

lemma toString_operator_assign:
  "fst (toString localOffset (operator_assign localOffset other)) =
   fst (toString localOffset other)"
  by (simp add: operator_assign_def toString_def Let_def split: option.splits)

lemma removeItem_items:
  assumes "firstWithSuffix sfx (m_rItems r) = Some i"
  shows "Suc (length (m_rItems (removeItem localOffset sfx r))) = length (m_rItems r)"
    and "j < length (m_rItems (removeItem localOffset sfx r)) \<Longrightarrow> j \<noteq> i \<Longrightarrow>
         m_rItems (removeItem localOffset sfx r) ! j = m_rItems r ! j"
    and "i < length (m_rItems (removeItem localOffset sfx r)) \<Longrightarrow>
         m_rItems (removeItem localOffset sfx r) ! i =
           operator_assign localOffset (last (m_rItems r))"
proof -
  from assms have ne: "m_rItems r \<noteq> []"
    by (cases "m_rItems r") auto
  then have pos: "0 < length (m_rItems r)" by simp
  show "Suc (length (m_rItems (removeItem localOffset sfx r))) = length (m_rItems r)"
    using pos by (simp add: removeItem_def assms)
  show "j < length (m_rItems (removeItem localOffset sfx r)) \<Longrightarrow> j \<noteq> i \<Longrightarrow>
         m_rItems (removeItem localOffset sfx r) ! j = m_rItems r ! j"
    by (auto simp add: removeItem_def assms nth_butlast split: if_splits)
  show "i < length (m_rItems (removeItem localOffset sfx r)) \<Longrightarrow>
         m_rItems (removeItem localOffset sfx r) ! i =
           operator_assign localOffset (last (m_rItems r))"
    by (auto simp add: removeItem_def assms nth_butlast split: if_splits)
qed

lemma light_resource_items:
  "m_rItems light_resource = [item_state_on, item_state_bri, item_config_battery]"
  by code_simp

lemma light_resource_inv: "oneItemPerSuffix light_resource"
  unfolding light_resource_def
  by (intro addItem_keeps_invariant) (simp add: oneItemPerSuffix_def Resource_ctor_def)

lemma light_resource_item: "item RStateOn light_resource = Some 0"
  by (simp add: item_def light_resource_items item_state_on_def ResourceItem_ctor_def
      ResourceItemDescriptor_ctor_def descriptor_def)

lemma no_bool_config_battery:
  "\<forall>d \<in> set initResourceDescriptors.
     \<not> (ptr (suffix d) = ptr RConfigBattery \<and> type d = DataTypeBool)"
proof -
  have "list_all (\<lambda>d. \<not> (ptr (suffix d) = ptr RConfigBattery \<and> type d = DataTypeBool))
          initResourceDescriptors"
    by code_simp
  then show ?thesis
    by (simp add: list_all_iff)
qed

text \<open>
  Claim C6. A new resource has at most one item per suffix, and \<^verbatim>\<open>addItem\<close>, \<^verbatim>\<open>removeItem\<close>
  and the copy constructor keep it so. When the suffix is present, \<^verbatim>\<open>addItem\<close> returns the
  pointer to the item that is there, whatever type is asked for, reports nothing and leaves
  the resource and its \<^verbatim>\<open>itemCount\<close> as they were; so a second \<^verbatim>\<open>addItem\<close> with the suffix of
  a first one returns the same pointer and changes nothing.
\<close>

theorem addItem_one_per_suffix:
  "oneItemPerSuffix (Resource_ctor prefix) \<and>
   (oneItemPerSuffix r \<longrightarrow>
      oneItemPerSuffix
        (snd (snd (addItem localOffset reallocates isPublic0 rItemDescriptors ty sfx r))) \<and>
      oneItemPerSuffix (removeItem localOffset sfx r) \<and>
      oneItemPerSuffix (Resource_copy localOffset r)) \<and>
   (item sfx r = Some i \<longrightarrow>
      addItem localOffset reallocates isPublic0 rItemDescriptors ty sfx r = (Some i, [], r) \<and>
      itemCount
        (snd (snd (addItem localOffset reallocates isPublic0 rItemDescriptors ty sfx r))) =
        itemCount r) \<and>
   (fst (addItem localOffset reallocates isPublic0 rItemDescriptors ty sfx r) = Some i \<longrightarrow>
      addItem localOffset reallocates isPublic0 rItemDescriptors ty' sfx
        (snd (snd (addItem localOffset reallocates isPublic0 rItemDescriptors ty sfx r))) =
      (Some i, [],
       snd (snd (addItem localOffset reallocates isPublic0 rItemDescriptors ty sfx r))))"
proof -
  have 1: "oneItemPerSuffix (Resource_ctor prefix)"
    by (simp add: oneItemPerSuffix_def Resource_ctor_def)
  have 2: "item sfx r = Some i \<longrightarrow>
      addItem localOffset reallocates isPublic0 rItemDescriptors ty sfx r = (Some i, [], r) \<and>
      itemCount
        (snd (snd (addItem localOffset reallocates isPublic0 rItemDescriptors ty sfx r))) =
        itemCount r"
    by (simp add: addItem_present)
  have 3: "fst (addItem localOffset reallocates isPublic0 rItemDescriptors ty sfx r) = Some i \<longrightarrow>
      addItem localOffset reallocates isPublic0 rItemDescriptors ty' sfx
        (snd (snd (addItem localOffset reallocates isPublic0 rItemDescriptors ty sfx r))) =
      (Some i, [],
       snd (snd (addItem localOffset reallocates isPublic0 rItemDescriptors ty sfx r)))"
    using addItem_then_present addItem_present by blast
  show ?thesis
    using 1 2 3 addItem_keeps_invariant removeItem_keeps_invariant Resource_copy_keeps_invariant
    by blast
qed

text \<open>
  The resource with the items \<^verbatim>\<open>state/on\<close>, \<^verbatim>\<open>state/bri\<close> and \<^verbatim>\<open>config/battery\<close>: adding
  \<^verbatim>\<open>state/bri\<close> again, as a string, returns the item at index 1 and leaves the three items.
\<close>

theorem addItem_one_per_suffix_witness:
  "oneItemPerSuffix light_resource \<and>
   item RStateBri light_resource = Some 1 \<and>
   addItem 0 False True initResourceDescriptors DataTypeString RStateBri light_resource =
     (Some 1, [], light_resource) \<and>
   itemCount (snd (snd (addItem 0 False True initResourceDescriptors DataTypeString RStateBri
     light_resource))) = 3 \<and>
   oneItemPerSuffix (removeItem 0 RStateBri light_resource)"
proof -
  have p: "item RStateBri light_resource = Some 1"
    by (simp add: item_def light_resource_items item_state_on_def item_state_bri_def
        ResourceItem_ctor_def ResourceItemDescriptor_ctor_def descriptor_def RStateOn_def
        RStateBri_def)
  have c: "itemCount light_resource = 3"
    by (simp add: itemCount_def light_resource_items)
  note t = addItem_one_per_suffix [of RLights light_resource 0 False True
      initResourceDescriptors DataTypeString RStateBri 1 DataTypeString]
  have 1: "addItem 0 False True initResourceDescriptors DataTypeString RStateBri light_resource =
     (Some 1, [], light_resource)"
    using t p by blast
  have 2: "itemCount (snd (snd (addItem 0 False True initResourceDescriptors DataTypeString RStateBri
     light_resource))) = 3"
  proof -
    from t p have "itemCount (snd (snd (addItem 0 False True initResourceDescriptors DataTypeString
        RStateBri light_resource))) = itemCount light_resource"
      by blast
    with c show ?thesis by simp
  qed
  have 3: "oneItemPerSuffix (removeItem 0 RStateBri light_resource)"
    using t light_resource_inv by blast
  show ?thesis
    using light_resource_inv p 1 2 3 by blast
qed

text \<open>
  Claim C7. \<^verbatim>\<open>removeItem\<close> of a suffix that is present makes the vector one shorter, puts a
  copy of the last item where the removed one was (unless that was the last one) and leaves
  the other items before the last where they were. The copy has the descriptor, the number
  and the string of the last item. In a resource with at most one item per suffix, which is
  every resource that the operations of \<^verbatim>\<open>Resource\<close> build, \<^verbatim>\<open>item\<close> of the suffix then returns
  the null pointer.
\<close>

theorem removeItem_swap_pop:
  assumes "item sfx r = Some i"
  shows "Suc (itemCount (removeItem localOffset sfx r)) = itemCount r \<and>
         (oneItemPerSuffix r \<longrightarrow> item sfx (removeItem localOffset sfx r) = None) \<and>
         (\<forall>j < itemCount (removeItem localOffset sfx r). j \<noteq> i \<longrightarrow>
            m_rItems (removeItem localOffset sfx r) ! j = m_rItems r ! j) \<and>
         (i < itemCount (removeItem localOffset sfx r) \<longrightarrow>
            m_rItems (removeItem localOffset sfx r) ! i =
              operator_assign localOffset (last (m_rItems r)) \<and>
            descriptor (m_rItems (removeItem localOffset sfx r) ! i) =
              descriptor (last (m_rItems r)) \<and>
            toNumber (m_rItems (removeItem localOffset sfx r) ! i) =
              toNumber (last (m_rItems r)) \<and>
            fst (toString localOffset (m_rItems (removeItem localOffset sfx r) ! i)) =
              fst (toString localOffset (last (m_rItems r))))"
proof -
  from assms have f: "firstWithSuffix sfx (m_rItems r) = Some i"
    by (simp add: item_def)
  have 1: "Suc (itemCount (removeItem localOffset sfx r)) = itemCount r"
    using removeItem_items(1) [OF f] by (simp add: itemCount_def)
  have 2: "oneItemPerSuffix r \<longrightarrow> item sfx (removeItem localOffset sfx r) = None"
    using assms removeItem_removes by blast
  have 3: "\<forall>j < itemCount (removeItem localOffset sfx r). j \<noteq> i \<longrightarrow>
            m_rItems (removeItem localOffset sfx r) ! j = m_rItems r ! j"
    using removeItem_items(2) [OF f] by (simp add: itemCount_def)
  have 4: "i < itemCount (removeItem localOffset sfx r) \<longrightarrow>
            m_rItems (removeItem localOffset sfx r) ! i =
              operator_assign localOffset (last (m_rItems r))"
    using removeItem_items(3) [OF f] by (simp add: itemCount_def)
  show ?thesis
    using 1 2 3 4
    by (simp add: descriptor_def toNumber_def operator_assign_fields toString_operator_assign)
qed

text \<open>
  Removing \<^verbatim>\<open>state/on\<close>, the first of the three items: \<^verbatim>\<open>config/battery\<close>, which was last,
  is now first, before \<^verbatim>\<open>state/bri\<close>.
\<close>

theorem removeItem_swap_pop_witness:
  "oneItemPerSuffix light_resource \<and> item RStateOn light_resource = Some 0 \<and>
   itemCount light_resource = 3 \<and>
   itemCount (removeItem 0 RStateOn light_resource) = 2 \<and>
   item RStateOn (removeItem 0 RStateOn light_resource) = None \<and>
   m_rItems (removeItem 0 RStateOn light_resource) ! 1 = item_state_bri \<and>
   descriptor (m_rItems (removeItem 0 RStateOn light_resource) ! 0) =
     descriptor item_config_battery"
proof -
  note t = removeItem_swap_pop [OF light_resource_item, of 0]
  have c: "itemCount light_resource = 3"
    by (simp add: itemCount_def light_resource_items)
  have l: "last (m_rItems light_resource) = item_config_battery"
    "m_rItems light_resource ! 1 = item_state_bri"
    by (simp_all add: light_resource_items)
  have n: "itemCount (removeItem 0 RStateOn light_resource) = 2"
    using t c by linarith
  have 1: "m_rItems (removeItem 0 RStateOn light_resource) ! 1 = item_state_bri"
    using t n l(2) by simp
  have 2: "descriptor (m_rItems (removeItem 0 RStateOn light_resource) ! 0) =
     descriptor item_config_battery"
    using t n l(1) by (simp add: descriptor_operator_assign)
  have 3: "item RStateOn (removeItem 0 RStateOn light_resource) = None"
    using t light_resource_inv by blast
  show ?thesis
    using light_resource_inv light_resource_item c n 1 2 3 by blast
qed

text \<open>
  Claim C9. When the suffix is not in the resource and no descriptor of the table has this
  suffix pointer with this type, \<^verbatim>\<open>addItem\<close> reports the failed assertion and the message,
  returns the null pointer and leaves the resource as it was: the same \<^verbatim>\<open>itemCount\<close>, and
  \<^verbatim>\<open>item\<close> of the suffix still the null pointer.
\<close>

theorem addItem_unknown:
  assumes "item sfx r = None"
    and "\<forall>d \<in> set rItemDescriptors. \<not> (ptr (suffix d) = ptr sfx \<and> type d = ty)"
  shows "addItem localOffset reallocates isPublic0 rItemDescriptors ty sfx r =
           (None, [DBG_Assert_failed, DBG_Printf_unknown ty sfx], r) \<and>
         itemCount
        (snd (snd (addItem localOffset reallocates isPublic0 rItemDescriptors ty sfx r))) =
        itemCount r \<and>
         item sfx
        (snd (snd (addItem localOffset reallocates isPublic0 rItemDescriptors ty sfx r))) = None"
proof -
  from assms(2) have "find (\<lambda>d. ptr (suffix d) = ptr sfx \<and> type d = ty) rItemDescriptors = None"
    by (simp add: find_None_iff)
  with assms(1) show ?thesis
    by (simp add: addItem_def)
qed

text \<open>
  The table has \<^verbatim>\<open>config/battery\<close> as an 8-bit number, not as a boolean: asking a new
  resource for the boolean adds nothing.
\<close>

theorem addItem_unknown_witness:
  "item RConfigBattery (Resource_ctor RSensors) = None \<and>
   find (\<lambda>d. ptr (suffix d) = ptr RConfigBattery \<and> type d = DataTypeBool)
     initResourceDescriptors = None \<and>
   addItem 0 False True initResourceDescriptors DataTypeBool RConfigBattery (Resource_ctor RSensors) =
     (None, [DBG_Assert_failed, DBG_Printf_unknown DataTypeBool RConfigBattery],
      Resource_ctor RSensors) \<and>
   itemCount (Resource_ctor RSensors) = 0"
proof -
  have a: "item RConfigBattery (Resource_ctor RSensors) = None"
    by (simp add: item_def Resource_ctor_def)
  have c: "itemCount (Resource_ctor RSensors) = 0"
    by (simp add: itemCount_def Resource_ctor_def)
  have f: "find (\<lambda>d. ptr (suffix d) = ptr RConfigBattery \<and> type d = DataTypeBool)
     initResourceDescriptors = None"
    using no_bool_config_battery by (simp add: find_None_iff)
  show ?thesis
    using a c f addItem_unknown [OF a no_bool_config_battery, of 0 False True]
    by blast
qed

subsection \<open>The item as a variant\<close>

text \<open>
  Claim C8, amended. \<^verbatim>\<open>toVariant\<close> returns the invalid variant exactly when \<open>lastSet\<close> is
  invalid, which it is for a new item. After a write that returns true, other than the write
  of an invalid variant, it returns a valid variant: the string of \<^verbatim>\<open>toString\<close> for the string,
  time-pattern and time types, the boolean of \<^verbatim>\<open>toBool\<close> for the boolean type, and the number
  as a \<^verbatim>\<open>double\<close> for every other type. Writing an invalid variant returns true and makes
  \<open>lastSet\<close> and \<open>lastChanged\<close> invalid.
\<close>

theorem toVariant_typed:
  "((fst (toVariant localOffset it) = QVariant_Invalid) = (m_lastSet it = None)) \<and>
   fst (toVariant localOffset (ResourceItem_ctor isPublic0 rid)) = QVariant_Invalid \<and>
   ((fst (setValue_qint64 now x it) \<and> it' = snd (setValue_qint64 now x it)) \<or>
    (fst (setValue_QString now s it) \<and> it' = snd (setValue_QString now s it)) \<or>
    (qv_isValid val \<and> fst (setValue_QVariant localOffset now val it) \<and>
     it' = snd (setValue_QVariant localOffset now val it)) \<longrightarrow>
      fst (toVariant localOffset it') \<noteq> QVariant_Invalid \<and>
      (type (m_rid it') = DataTypeString \<or> type (m_rid it') = DataTypeTimePattern \<or>
       type (m_rid it') = DataTypeTime \<longrightarrow>
         fst (toVariant localOffset it') = QVariant_QString (fst (toString localOffset it'))) \<and>
      (type (m_rid it') = DataTypeBool \<longrightarrow>
         fst (toVariant localOffset it') = QVariant_bool (toBool it')) \<and>
      (type (m_rid it') \<noteq> DataTypeString \<and> type (m_rid it') \<noteq> DataTypeTimePattern \<and>
       type (m_rid it') \<noteq> DataTypeTime \<and> type (m_rid it') \<noteq> DataTypeBool \<longrightarrow>
         fst (toVariant localOffset it') = QVariant_double (toNumber it'))) \<and>
   (\<not> qv_isValid val \<longrightarrow>
      fst (setValue_QVariant localOffset now val it) \<and>
      m_lastSet (snd (setValue_QVariant localOffset now val it)) = None \<and>
      m_lastChanged (snd (setValue_QVariant localOffset now val it)) = None)"
proof -
  have iff: "\<And>j. (fst (toVariant localOffset j) = QVariant_Invalid) = (m_lastSet j = None)"
    by (simp add: toVariant_def split: option.splits)
  have fresh: "fst (toVariant localOffset (ResourceItem_ctor isPublic0 rid)) = QVariant_Invalid"
    by (simp add: toVariant_def ResourceItem_ctor_def)
  have typed: "\<And>j. m_lastSet j \<noteq> None \<Longrightarrow>
      (type (m_rid j) = DataTypeString \<or> type (m_rid j) = DataTypeTimePattern \<or>
       type (m_rid j) = DataTypeTime \<longrightarrow>
         fst (toVariant localOffset j) = QVariant_QString (fst (toString localOffset j))) \<and>
      (type (m_rid j) = DataTypeBool \<longrightarrow>
         fst (toVariant localOffset j) = QVariant_bool (toBool j)) \<and>
      (type (m_rid j) \<noteq> DataTypeString \<and> type (m_rid j) \<noteq> DataTypeTimePattern \<and>
       type (m_rid j) \<noteq> DataTypeTime \<and> type (m_rid j) \<noteq> DataTypeBool \<longrightarrow>
         fst (toVariant localOffset j) = QVariant_double (toNumber j))"
    by (auto simp add: toVariant_def toString_def toBool_def toNumber_def rItemStrings_0_def
        split: option.splits)
  have written: "(fst (setValue_qint64 now x it) \<and> it' = snd (setValue_qint64 now x it)) \<or>
    (fst (setValue_QString now s it) \<and> it' = snd (setValue_QString now s it)) \<or>
    (qv_isValid val \<and> fst (setValue_QVariant localOffset now val it) \<and>
     it' = snd (setValue_QVariant localOffset now val it)) \<Longrightarrow> m_lastSet it' \<noteq> None"
    using setValue_qint64_True [of now x it] setValue_QString_True [of now s it]
      setValue_QVariant_True [of val localOffset now it]
    by (auto simp add: storeNumber_fields)
  have clear: "\<not> qv_isValid val \<Longrightarrow>
      fst (setValue_QVariant localOffset now val it) \<and>
      m_lastSet (snd (setValue_QVariant localOffset now val it)) = None \<and>
      m_lastChanged (snd (setValue_QVariant localOffset now val it)) = None"
    by (simp add: setValue_QVariant_def)
  show ?thesis
    using iff [of it] iff [of it'] fresh typed [of it'] written clear by blast
qed

text \<open>
  The brightness item: invalid when new, the number 7 after 7 is written, and cleared by the
  invalid variant.
\<close>

theorem toVariant_typed_witness:
  "fst (setValue_qint64 1000 7 item_state_bri) \<and>
   type (m_rid item_state_bri_written) = DataTypeUInt8 \<and>
   fst (toVariant 0 item_state_bri_written) = QVariant_double 7 \<and>
   fst (toVariant 0 item_state_bri) = QVariant_Invalid \<and>
   \<not> qv_isValid invalid_variant \<and>
   fst (setValue_QVariant 0 2000 invalid_variant item_state_bri_written) \<and>
   m_lastSet (snd (setValue_QVariant 0 2000 invalid_variant item_state_bri_written)) = None"
proof -
  note t = toVariant_typed [where localOffset = 0 and it = item_state_bri and now = 1000
      and x = 7 and it' = item_state_bri_written and val = invalid_variant]
  note u = toVariant_typed [where localOffset = 0 and it = item_state_bri_written and now = 2000
      and val = invalid_variant]
  have a: "fst (setValue_qint64 1000 7 item_state_bri)"
    by (simp add: setValue_qint64_def item_state_bri_fields)
  have b: "item_state_bri_written = snd (setValue_qint64 1000 7 item_state_bri)"
    by (simp add: item_state_bri_written_def)
  have ty: "type (m_rid item_state_bri_written) = DataTypeUInt8"
    by (simp add: b setValue_qint64_True [OF a] storeNumber_fields item_state_bri_fields)
  have n: "toNumber item_state_bri_written = 7"
    by (simp add: b setValue_qint64_True [OF a] storeNumber_fields toNumber_def)
  have v: "\<not> qv_isValid invalid_variant"
    by (simp add: invalid_variant_def)
  have 1: "fst (toVariant 0 item_state_bri_written) = QVariant_double (toNumber item_state_bri_written)"
    using t a b ty by simp
  have 2: "fst (toVariant 0 item_state_bri) = QVariant_Invalid"
    using t item_state_bri_fields(2) by blast
  have 3: "fst (setValue_QVariant 0 2000 invalid_variant item_state_bri_written) \<and>
   m_lastSet (snd (setValue_QVariant 0 2000 invalid_variant item_state_bri_written)) = None"
    using u v by blast
  show ?thesis
    using a ty 1 n 2 v 3 by simp
qed

text \<open>
  Claim C8 as stated covers every successful write, and fails for the invalid variant: the
  write returns true and \<^verbatim>\<open>toVariant\<close> returns the invalid variant after it, not a number.
\<close>

theorem invalid_write_leaves_toVariant_empty:
  "fst (setValue_QVariant 0 2000 invalid_variant item_state_bri_written) = True \<and>
   fst (toVariant 0 (snd (setValue_QVariant 0 2000 invalid_variant item_state_bri_written))) =
     QVariant_Invalid"
  by (simp add: setValue_QVariant_def invalid_variant_def toVariant_def)

subsection \<open>What the clearing write leaves alone\<close>

text \<open>
  Claim C10. Writing an invalid variant returns true and changes nothing but the two time
  stamps: the number, the previous number and the string buffer stay, and \<^verbatim>\<open>toNumber\<close>,
  \<^verbatim>\<open>toNumberPrevious\<close>, \<^verbatim>\<open>toBool\<close> and \<^verbatim>\<open>toString\<close> return what they returned before.
\<close>

theorem setValue_QVariant_invalid_frame:
  "\<not> qv_isValid val \<Longrightarrow>
   fst (setValue_QVariant localOffset now val it) = True \<and>
   snd (setValue_QVariant localOffset now val it) = it\<lparr>m_lastSet := None, m_lastChanged := None\<rparr> \<and>
   m_num (snd (setValue_QVariant localOffset now val it)) = m_num it \<and>
   m_numPrev (snd (setValue_QVariant localOffset now val it)) = m_numPrev it \<and>
   m_str (snd (setValue_QVariant localOffset now val it)) = m_str it \<and>
   toNumber (snd (setValue_QVariant localOffset now val it)) = toNumber it \<and>
   toNumberPrevious (snd (setValue_QVariant localOffset now val it)) = toNumberPrevious it \<and>
   toBool (snd (setValue_QVariant localOffset now val it)) = toBool it \<and>
   fst (toString localOffset (snd (setValue_QVariant localOffset now val it))) =
     fst (toString localOffset it)"
  by (simp add: setValue_QVariant_def toNumber_def toNumberPrevious_def toBool_def toString_def Let_def
      split: option.splits)

text \<open>
  The brightness item holding 7 after 0: it still does after the invalid variant is written.
\<close>

theorem setValue_QVariant_invalid_frame_witness:
  "\<not> qv_isValid invalid_variant \<and>
   fst (setValue_QVariant 0 2000 invalid_variant item_state_bri_written) = True \<and>
   toNumber (snd (setValue_QVariant 0 2000 invalid_variant item_state_bri_written)) = 7 \<and>
   toNumberPrevious (snd (setValue_QVariant 0 2000 invalid_variant item_state_bri_written)) = 0 \<and>
   toBool (snd (setValue_QVariant 0 2000 invalid_variant item_state_bri_written)) = True"
proof -
  have v: "\<not> qv_isValid invalid_variant"
    by (simp add: invalid_variant_def)
  have n: "toNumber item_state_bri_written = 7" "toNumberPrevious item_state_bri_written = 0"
    "toBool item_state_bri_written"
    by (simp_all add: item_state_bri_written_def setValue_qint64_def item_state_bri_def
        ResourceItem_ctor_def ResourceItemDescriptor_ctor_def storeNumber_fields toNumber_def
        toNumberPrevious_def toBool_def)
  note f = setValue_QVariant_invalid_frame [OF v, of 0 2000 item_state_bri_written]
  have 1: "fst (setValue_QVariant 0 2000 invalid_variant item_state_bri_written) = True"
    using f by blast
  have 2: "toNumber (snd (setValue_QVariant 0 2000 invalid_variant item_state_bri_written)) = 7"
    using f n(1) by metis
  have 3: "toNumberPrevious (snd (setValue_QVariant 0 2000 invalid_variant item_state_bri_written)) = 0"
    using f n(2) by metis
  have 4: "toBool (snd (setValue_QVariant 0 2000 invalid_variant item_state_bri_written)) = True"
    using f n(3) by metis
  show ?thesis
    using v 1 2 3 4 by blast
qed

end
